theory Spec2Isabelle
  imports Main
begin

section \<open>Exceptions, values and the environment\<close>

text \<open>
  The exceptions the program can meet, by the classes its handlers tell apart.
  \<open>SocketError\<close> is \<open>socket.error\<close> (an alias of \<open>OSError\<close>, with its subclasses);
  \<open>URLError\<close> is \<open>urllib.error.URLError\<close>, itself a subclass of \<open>OSError\<close>;
  \<open>JSONDecodeError\<close> is \<open>json.JSONDecodeError\<close>; \<open>AttributeError\<close> is raised by an
  attribute lookup that fails; \<open>OtherException\<close> stands for every other subclass of
  \<open>Exception\<close>.
\<close>

datatype py_exn = SocketError | URLError | JSONDecodeError | AttributeError | OtherException

text \<open>\<open>except socket.error\<close>: the exception is an instance of \<open>OSError\<close>.\<close>

fun is_socket_error :: "py_exn \<Rightarrow> bool" where
  "is_socket_error SocketError = True"
| "is_socket_error URLError = True"
| "is_socket_error _ = False"

text \<open>What \<open>json.loads\<close> can return: a dict is the list of its items (keys distinct).\<close>

datatype py_value =
    PyStr string
  | PyNone
  | PyBool bool
  | PyInt int
  | PyFloat string
  | PyList "py_value list"
  | PyDict "(string \<times> py_value) list"

text \<open>
  The outside world. Every operation of the operating system, the network and the
  libraries is a field; a numeric argument is the moment of the call (the number of
  effects the program has performed so far), so that an operation may answer
  differently each time it is called.
  \<^item> \<open>urlopen env url t\<close>: the outcome of the whole \<open>with urlopen(url, timeout=5)\<close> block,
    the decoded body or the exception raised by opening, reading or decoding;
  \<^item> \<open>getsockname env t\<close>: component 0 of the address \<open>s.getsockname()\<close> returns;
  \<^item> \<open>json_loads env\<close>: \<open>json.loads\<close>; \<open>py_str env\<close>: the builtin \<open>str\<close> on values
    that are not strings;
  \<^item> \<open>requests_post env url payload t\<close>: \<open>requests.post(url, json=payload, timeout=3)\<close>.
\<close>

record env =
  urlopen :: "string \<Rightarrow> nat \<Rightarrow> py_exn + string"
  gethostname :: "nat \<Rightarrow> py_exn + string"
  socket_new :: "nat \<Rightarrow> py_exn + unit"
  connect :: "nat \<Rightarrow> py_exn + unit"
  getsockname :: "nat \<Rightarrow> py_exn + string"
  gethostbyname :: "string \<Rightarrow> nat \<Rightarrow> py_exn + string"
  socket_close :: "nat \<Rightarrow> py_exn + unit"
  json_loads :: "string \<Rightarrow> py_exn + py_value"
  py_str :: "py_value \<Rightarrow> string"
  requests_post :: "string \<Rightarrow> (string \<times> string) list \<Rightarrow> nat \<Rightarrow> py_exn + unit"

section \<open>Effects\<close>

text \<open>The diagnostics written to \<open>sys.stderr\<close>, without the text of the exception.\<close>

datatype diag =
    AttemptURLError nat nat string
  | AttemptUnexpected nat nat
  | Retrying nat
  | LocalInfoError

datatype event =
    Get string nat
  | Sleep nat
  | Stderr diag
  | GetHostName
  | SocketNew
  | Connect string nat
  | GetSockName
  | GetHostByName string
  | SocketClose
  | Post string "(string \<times> string) list" nat
  | EnterMain

datatype stream = Console | TerminalOutput

text \<open>
  The state of the process: the effects performed so far, in order; where
  \<open>sys.stdout\<close> points; the contents of the \<open>io.StringIO\<close> buffer \<open>terminal_output\<close>
  and of the real standard output; the sockets that are open.
\<close>

record state =
  trace :: "event list"
  sys_stdout :: stream
  terminal_output :: string
  console :: string
  open_sockets :: nat

definition now :: "state \<Rightarrow> nat" where
  "now st = length (trace st)"

definition emit :: "event \<Rightarrow> state \<Rightarrow> state" where
  "emit e st = st\<lparr>trace := trace st @ [e]\<rparr>"

text \<open>\<open>print(s)\<close>: the text and a newline, to wherever \<open>sys.stdout\<close> points.\<close>

definition print :: "string \<Rightarrow> state \<Rightarrow> state" where
  "print s st =
     (case sys_stdout st of
        TerminalOutput \<Rightarrow> st\<lparr>terminal_output := terminal_output st @ s @ [CHR 0x0A]\<rparr>
      | Console \<Rightarrow> st\<lparr>console := console st @ s @ [CHR 0x0A]\<rparr>)"

section \<open>Configuration\<close>

definition PUBLIC_IP_SERVICE_URL :: string where
  "PUBLIC_IP_SERVICE_URL = ''https://api.ipify.org?format=text''"

definition GEOLOCATION_SERVICE_URL :: string where
  "GEOLOCATION_SERVICE_URL = ''https://ipinfo.io/json''"

definition MAX_RETRIES :: nat where
  "MAX_RETRIES = 3"

definition INITIAL_DELAY :: nat where
  "INITIAL_DELAY = 1"

section \<open>The remote fetcher\<close>

text \<open>
  The body of the \<open>for attempt in range(MAX_RETRIES)\<close> loop, over the attempts that
  remain. A body returns from the function; an exception of either handler is reported,
  and the loop sleeps before the next attempt unless this was the last one. Python's
  \<open>None\<close> is \<open>None\<close>.
\<close>

fun fetch_loop :: "env \<Rightarrow> string \<Rightarrow> nat list \<Rightarrow> state \<Rightarrow> string option \<times> state" where
  "fetch_loop env url [] st = (None, st)"
| "fetch_loop env url (attempt # rest) st =
     (case urlopen env url (now st) of
        Inr body \<Rightarrow> (Some body, emit (Get url 5) st)
      | Inl e \<Rightarrow>
          (let st1 = emit (Get url 5) st;
               st2 = (if e = URLError
                      then emit (Stderr (AttemptURLError (attempt + 1) MAX_RETRIES url)) st1
                      else emit (Stderr (AttemptUnexpected (attempt + 1) MAX_RETRIES)) st1);
               st3 = (if attempt < MAX_RETRIES - 1
                      then (let delay = INITIAL_DELAY * (2 ^ attempt)
                            in emit (Sleep delay) (emit (Stderr (Retrying delay)) st2))
                      else st2)
           in fetch_loop env url rest st3))"

definition fetch_data_with_retry :: "env \<Rightarrow> string \<Rightarrow> state \<Rightarrow> string option \<times> state" where
  "fetch_data_with_retry env url st = fetch_loop env url [0..<MAX_RETRIES] st"

section \<open>The public info resolver\<close>

text \<open>
  \<open>str.strip()\<close> removes the leading and trailing characters that \<open>str.isspace\<close>
  accepts. A \<open>char\<close> is a code point below 256; there the white space is 9 to 13,
  28 to 32, 133 and 160.
\<close>

definition isspace :: "char \<Rightarrow> bool" where
  "isspace c = (let n = of_char c :: nat
                in (9 \<le> n \<and> n \<le> 13) \<or> (28 \<le> n \<and> n \<le> 32) \<or> n = 133 \<or> n = 160)"

definition strip :: "string \<Rightarrow> string" where
  "strip s = rev (dropWhile isspace (rev (dropWhile isspace s)))"

text \<open>\<open>if ip_data:\<close> holds for a string that is not empty; \<open>None\<close> and \<open>""\<close> are false.\<close>

definition get_public_ip :: "env \<Rightarrow> state \<Rightarrow> string \<times> state" where
  "get_public_ip env st =
     (case fetch_data_with_retry env PUBLIC_IP_SERVICE_URL st of
        (ip_data, st1) \<Rightarrow>
          (case ip_data of
             None \<Rightarrow> (''N/A (Connection Failed)'', st1)
           | Some body \<Rightarrow>
               (if body \<noteq> [] then (strip body, st1)
                else (''N/A (Connection Failed)'', st1))))"

text \<open>\<open>data.get(key, default)\<close>: only a dict has the method.\<close>

fun dict_get :: "py_value \<Rightarrow> string \<Rightarrow> py_value \<Rightarrow> py_exn + py_value" where
  "dict_get (PyDict items) key dflt =
     (case map_of items key of Some v \<Rightarrow> Inr v | None \<Rightarrow> Inr dflt)"
| "dict_get _ key dflt = Inl AttributeError"

text \<open>A replacement field \<open>{v}\<close> of an f-string: a string as it is, \<open>str(v)\<close> otherwise.\<close>

fun format_field :: "env \<Rightarrow> py_value \<Rightarrow> string" where
  "format_field env (PyStr s) = s"
| "format_field env v = py_str env v"

text \<open>
  The \<open>try\<close> block of \<open>get_geolocation\<close> with its handler: only
  \<open>json.JSONDecodeError\<close> is caught, every other exception leaves the function.
\<close>

definition parse_location :: "env \<Rightarrow> string \<Rightarrow> py_exn + string" where
  "parse_location env location_data =
     (case json_loads env location_data of
        Inl e \<Rightarrow>
          (if e = JSONDecodeError then Inr ''N/A (Invalid response from location service)''
           else Inl e)
      | Inr data \<Rightarrow>
          (case dict_get data ''city'' (PyStr ''Unknown City'') of
             Inl e \<Rightarrow> Inl e
           | Inr city \<Rightarrow>
               (case dict_get data ''region'' (PyStr ''Unknown Region'') of
                  Inl e \<Rightarrow> Inl e
                | Inr region \<Rightarrow>
                    (case dict_get data ''country'' (PyStr ''Unknown Country'') of
                       Inl e \<Rightarrow> Inl e
                     | Inr country \<Rightarrow>
                         Inr (format_field env city @ '', '' @ format_field env region
                              @ '', '' @ format_field env country)))))"

definition get_geolocation :: "env \<Rightarrow> string \<Rightarrow> state \<Rightarrow> (py_exn + string) \<times> state" where
  "get_geolocation env public_ip st =
     (if public_ip = ''N/A (Connection Failed)'' then (Inr ''N/A (Requires Public IP)'', st)
      else
        (case fetch_data_with_retry env GEOLOCATION_SERVICE_URL st of
           (location_data, st1) \<Rightarrow>
             (case location_data of
                None \<Rightarrow> (Inr ''N/A (Location Lookup Failed)'', st1)
              | Some body \<Rightarrow>
                  (if body \<noteq> [] then (parse_location env body, st1)
                   else (Inr ''N/A (Location Lookup Failed)'', st1)))))"

section \<open>The local info probe\<close>

text \<open>
  The inner \<open>try\<close> with its \<open>except Exception\<close>: the connect and the read of the
  socket's address, and on any exception of either the lookup of the host name, whose
  own exception is not caught here.
\<close>

definition probe_local_ip :: "env \<Rightarrow> string \<Rightarrow> state \<Rightarrow> (py_exn + string) \<times> state" where
  "probe_local_ip env hostname st =
     (let fallback = (\<lambda>s. (gethostbyname env hostname (now s), emit (GetHostByName hostname) s));
          st1 = emit (Connect ''8.8.8.8'' 1) st
      in case connect env (now st) of
           Inl e \<Rightarrow> fallback st1
         | Inr u \<Rightarrow>
             (let st2 = emit GetSockName st1
              in case getsockname env (now st1) of
                   Inl e \<Rightarrow> fallback st2
                 | Inr ip \<Rightarrow> (Inr ip, st2)))"

text \<open>
  The \<open>finally\<close> clause: \<open>s.close()\<close> runs whatever the inner block did; the socket
  is released by the call. An exception of \<open>close\<close> replaces the pending one.
\<close>

definition close_socket :: "env \<Rightarrow> state \<Rightarrow> (py_exn + unit) \<times> state" where
  "close_socket env st =
     (socket_close env (now st), (emit SocketClose st)\<lparr>open_sockets := open_sockets st - 1\<rparr>)"

text \<open>
  The handler \<open>except socket.error\<close> of the outer \<open>try\<close>, with the value \<open>hostname\<close>
  has when the exception arrives.
\<close>

definition on_socket_error :: "py_exn \<Rightarrow> string \<Rightarrow> state \<Rightarrow> (py_exn + string \<times> string) \<times> state" where
  "on_socket_error e hostname st =
     (if is_socket_error e then (Inr (hostname, ''N/A''), emit (Stderr LocalInfoError) st)
      else (Inl e, st))"

definition get_local_info :: "env \<Rightarrow> state \<Rightarrow> (py_exn + string \<times> string) \<times> state" where
  "get_local_info env st =
     (let st1 = emit GetHostName st
      in case gethostname env (now st) of
           Inl e \<Rightarrow> on_socket_error e ''N/A'' st1
         | Inr hostname \<Rightarrow>
             (let st2 = emit SocketNew st1
              in case socket_new env (now st1) of
                   Inl e \<Rightarrow> on_socket_error e hostname st2
                 | Inr u \<Rightarrow>
                     (case probe_local_ip env hostname (st2\<lparr>open_sockets := open_sockets st2 + 1\<rparr>) of
                        (r, st3) \<Rightarrow>
                          (case close_socket env st3 of
                             (Inl e, st4) \<Rightarrow> on_socket_error e hostname st4
                           | (Inr u', st4) \<Rightarrow>
                               (case r of
                                  Inl e \<Rightarrow> on_socket_error e hostname st4
                                | Inr local_ip \<Rightarrow> (Inr (hostname, local_ip), st4))))))"

section \<open>The report and the module\<close>

text \<open>
  The second half of \<open>main\<close>, from the call of \<open>get_public_ip\<close> to the last
  \<open>print\<close>: the geolocation is looked up only when the public IP is not the sentinel.
\<close>

definition public_section :: "env \<Rightarrow> state \<Rightarrow> (py_exn + unit) \<times> state" where
  "public_section env st =
     (case get_public_ip env st of
        (public_ip, s1) \<Rightarrow>
          (let s2 = print (''Public IP Address (WAN): '' @ public_ip) s1;
               r = (if public_ip \<noteq> ''N/A (Connection Failed)''
                    then (case get_geolocation env public_ip s2 of
                            (Inl e, s3) \<Rightarrow> (Inl e, s3)
                          | (Inr geolocation, s3) \<Rightarrow>
                              (Inr (), print (''Estimated Location:      '' @ geolocation) s3))
                    else (Inr (),
                          print ''Estimated Location:      N/A (Failed to retrieve Public IP)'' s2))
           in case r of
                (Inl e, s4) \<Rightarrow> (Inl e, s4)
              | (Inr u, s4) \<Rightarrow>
                  (Inr (),
                   print (CHR 0x0A # ''[Image of network topology]'')
                     (print ''--------------------------------------------------'' s4))))"

text \<open>
  \<open>main\<close>. \<open>EnterMain\<close> marks each call. An exception of \<open>get_local_info\<close> or of
  \<open>get_geolocation\<close> leaves \<open>main\<close>, which has no handler.
\<close>

definition main :: "env \<Rightarrow> state \<Rightarrow> (py_exn + unit) \<times> state" where
  "main env st =
     (let s1 = print ''--------------------------------------------------'' (emit EnterMain st);
          s2 = print ''        Network and Host Information Utility        '' s1;
          s3 = print ''--------------------------------------------------'' s2;
          s4 = print (CHR 0x0A # ''[LOCAL NETWORK INFORMATION (No external calls)]'') s3
      in case get_local_info env s4 of
           (Inl e, s5) \<Rightarrow> (Inl e, s5)
         | (Inr (hostname, local_ip), s5) \<Rightarrow>
             (let s6 = print (''Desktop Name (Hostname): '' @ hostname) s5;
                  s7 = print (''Local IP Address (LAN):  '' @ local_ip) s6;
                  s8 = print (CHR 0x0A # ''[PUBLIC NETWORK INFORMATION (Requires external calls)]'') s7
              in public_section env s8))"

text \<open>
  \<open>send_to_webhook\<close>: one call of \<open>requests.post\<close> inside a \<open>try\<close> whose bare
  \<open>except\<close> catches whatever the call raises and does nothing.
\<close>

definition send_to_webhook :: "env \<Rightarrow> string \<Rightarrow> state \<Rightarrow> (py_exn + unit) \<times> state" where
  "send_to_webhook env text st =
     (let webhook_url = ''Your_webhook_here'';
          payload = [(''content'', ''```json'' @ [CHR 0x0A] @ text @ [CHR 0x0A] @ ''```'')];
          st1 = emit (Post webhook_url payload 3) st
      in case requests_post env webhook_url payload (now st) of
           Inl e \<Rightarrow> (Inr (), st1)
         | Inr u \<Rightarrow> (Inr (), st1))"

text \<open>The state of the process before the first statement of the file.\<close>

definition initial :: state where
  "initial = \<lparr>trace = [], sys_stdout = Console, terminal_output = [], console = [], open_sockets = 0\<rparr>"

text \<open>
  The statements of the file, in order; \<open>is_main\<close> is \<open>__name__ == "__main__"\<close>. An
  exception that leaves \<open>main\<close> ends the execution there. The two \<open>logging\<close> calls and
  the last, empty guarded block have no effect that is modelled.
\<close>

definition run_module :: "bool \<Rightarrow> env \<Rightarrow> (py_exn + unit) \<times> state" where
  "run_module is_main env =
     (let s0 = initial\<lparr>sys_stdout := TerminalOutput\<rparr>
      in case (if is_main then main env s0 else (Inr (), s0)) of
           (Inl e, s1) \<Rightarrow> (Inl e, s1)
         | (Inr u, s1) \<Rightarrow>
             (case main env s1 of
                (Inl e, s2) \<Rightarrow> (Inl e, s2)
              | (Inr u', s2) \<Rightarrow>
                  (let s3 = s2\<lparr>sys_stdout := Console\<rparr>;
                       output = terminal_output s3
                   in send_to_webhook env output s3)))"

text \<open>The exit status of the interpreter: 1 after an uncaught exception, 0 otherwise.\<close>

fun exit_status :: "(py_exn + unit) \<times> state \<Rightarrow> nat" where
  "exit_status (Inl e, st) = 1"
| "exit_status (Inr u, st) = 0"

section \<open>Observing a run\<close>

text \<open>The effects performed between two states of one run.\<close>

definition since :: "state \<Rightarrow> state \<Rightarrow> event list" where
  "since st st' = drop (length (trace st)) (trace st')"

text \<open>The requests and the waits among some effects, in order.\<close>

fun is_schedule :: "event \<Rightarrow> bool" where
  "is_schedule (Get u t) = True"
| "is_schedule (Sleep d) = True"
| "is_schedule _ = False"

definition schedule :: "event list \<Rightarrow> event list" where
  "schedule es = filter is_schedule es"

text \<open>
  The text of one field of the location: the value of the key when the object has it
  (a string as it is), the placeholder otherwise. It states what the specification says of
  \<open>get_geolocation\<close>, to compare with \<open>parse_location\<close>.
\<close>

definition location_field :: "env \<Rightarrow> (string \<times> py_value) list \<Rightarrow> string \<Rightarrow> string \<Rightarrow> string" where
  "location_field env items key placeholder =
     (case map_of items key of
        None \<Rightarrow> placeholder
      | Some (PyStr s) \<Rightarrow> s
      | Some v \<Rightarrow> py_str env v)"

text \<open>
  The operations of \<open>get_local_info\<close> that stand outside its inner \<open>try\<close> raise
  nothing but \<open>socket.error\<close>.
\<close>

definition only_socket_errors :: "env \<Rightarrow> bool" where
  "only_socket_errors env =
     (\<forall>t h e. (gethostname env t = Inl e \<or> socket_new env t = Inl e \<or>
               gethostbyname env h t = Inl e \<or> socket_close env t = Inl e)
              \<longrightarrow> is_socket_error e)"

text \<open>
  A state after more effects and more captured output, and a state with effects and
  captured output put before its own.
\<close>

definition extend :: "state \<Rightarrow> event list \<Rightarrow> string \<Rightarrow> state" where
  "extend st tr out = st\<lparr>trace := trace st @ tr, terminal_output := terminal_output st @ out\<rparr>"

definition earlier :: "event list \<Rightarrow> string \<Rightarrow> state \<Rightarrow> state" where
  "earlier tr out st = st\<lparr>trace := tr @ trace st, terminal_output := out @ terminal_output st\<rparr>"

text \<open>The effects of a fetch of \<open>url\<close>, and those of the local probe.\<close>

fun is_fetch :: "string \<Rightarrow> event \<Rightarrow> bool" where
  "is_fetch url (Get u t) = (u = url \<and> t = 5)"
| "is_fetch url (Sleep d) = True"
| "is_fetch url (Stderr d) = (d \<noteq> LocalInfoError)"
| "is_fetch url _ = False"

fun is_local :: "event \<Rightarrow> bool" where
  "is_local GetHostName = True"
| "is_local SocketNew = True"
| "is_local (Connect a p) = True"
| "is_local GetSockName = True"
| "is_local (GetHostByName h) = True"
| "is_local SocketClose = True"
| "is_local (Stderr d) = (d = LocalInfoError)"
| "is_local _ = False"

definition is_probe :: "event \<Rightarrow> bool" where
  "is_probe e = (is_local e \<or> is_fetch PUBLIC_IP_SERVICE_URL e \<or> is_fetch GEOLOCATION_SERVICE_URL e)"

text \<open>The number of calls of \<open>main\<close>, and the bodies of the POST requests, among some effects.\<close>

definition main_calls :: "event list \<Rightarrow> nat" where
  "main_calls es = length (filter (\<lambda>e. e = EnterMain) es)"

fun posted :: "event list \<Rightarrow> (string \<times> string) list list" where
  "posted [] = []"
| "posted (Post url payload timeout # es) = payload # posted es"
| "posted (e # es) = posted es"

text \<open>
  A world whose operations answer the same whenever they are called.
\<close>

definition timeless :: "env \<Rightarrow> bool" where
  "timeless env =
     (\<forall>t t'. (\<forall>u. urlopen env u t = urlopen env u t') \<and>
             gethostname env t = gethostname env t' \<and>
             socket_new env t = socket_new env t' \<and>
             connect env t = connect env t' \<and>
             getsockname env t = getsockname env t' \<and>
             (\<forall>h. gethostbyname env h t = gethostbyname env h t') \<and>
             socket_close env t = socket_close env t' \<and>
             (\<forall>u p. requests_post env u p t = requests_post env u p t'))"

text \<open>
  The text of one report, from the four values it shows: the lines \<open>main\<close> prints
  when it runs to its end, a newline after each.
\<close>

definition report_text :: "string \<Rightarrow> string \<Rightarrow> string \<Rightarrow> string \<Rightarrow> string" where
  "report_text hostname local_ip public_ip location =
     concat (map (\<lambda>line. line @ [CHR 0x0A])
       [''--------------------------------------------------'',
        ''        Network and Host Information Utility        '',
        ''--------------------------------------------------'',
        CHR 0x0A # ''[LOCAL NETWORK INFORMATION (No external calls)]'',
        ''Desktop Name (Hostname): '' @ hostname,
        ''Local IP Address (LAN):  '' @ local_ip,
        CHR 0x0A # ''[PUBLIC NETWORK INFORMATION (Requires external calls)]'',
        ''Public IP Address (WAN): '' @ public_ip,
        ''Estimated Location:      '' @ location,
        ''--------------------------------------------------'',
        CHR 0x0A # ''[Image of network topology]''])"

section \<open>Sample worlds\<close>

text \<open>
  Concrete worlds on which the theorems below are exercised. \<open>sample_loads\<close> agrees
  with \<open>json.loads\<close> on the bodies listed and is used on no other; \<open>sample_str\<close>
  agrees with \<open>str\<close> on \<open>None\<close> and the booleans.
\<close>

definition paris_body :: string where
  \<open>paris_body = ''{"city":"Paris","region":"Ile-de-France","country":"FR"}''\<close>

definition no_region_body :: string where
  \<open>no_region_body = ''{"city":"Paris","country":"FR"}''\<close>

definition sample_loads :: "string \<Rightarrow> py_exn + py_value" where
  "sample_loads body =
     (if body = paris_body
      then Inr (PyDict [(''city'', PyStr ''Paris''), (''region'', PyStr ''Ile-de-France''),
                        (''country'', PyStr ''FR'')])
      else if body = no_region_body
      then Inr (PyDict [(''city'', PyStr ''Paris''), (''country'', PyStr ''FR'')])
      else if body = ''[]'' then Inr (PyList [])
      else Inl JSONDecodeError)"

fun sample_str :: "py_value \<Rightarrow> string" where
  "sample_str PyNone = ''None''"
| "sample_str (PyBool b) = (if b then ''True'' else ''False'')"
| "sample_str v = []"

text \<open>
  A host named \<open>desktop\<close> whose sockets work, with the network as given; the webhook
  address is the placeholder of the source, which \<open>requests.post\<close> refuses.
\<close>

definition sample_env :: "(string \<Rightarrow> nat \<Rightarrow> py_exn + string) \<Rightarrow> env" where
  "sample_env net =
     \<lparr>urlopen = net,
      gethostname = (\<lambda>t. Inr ''desktop''),
      socket_new = (\<lambda>t. Inr ()),
      connect = (\<lambda>t. Inr ()),
      getsockname = (\<lambda>t. Inr ''192.168.1.10''),
      gethostbyname = (\<lambda>h t. Inr ''127.0.0.1''),
      socket_close = (\<lambda>t. Inr ()),
      json_loads = sample_loads,
      py_str = sample_str,
      requests_post = (\<lambda>u p t. Inl OtherException)\<rparr>"

text \<open>No network: every request raises \<open>URLError\<close>.\<close>

definition offline :: "string \<Rightarrow> nat \<Rightarrow> py_exn + string" where
  "offline url t = Inl URLError"

text \<open>Both services answer with the body given for each.\<close>

definition online :: "string \<Rightarrow> string \<Rightarrow> string \<Rightarrow> nat \<Rightarrow> py_exn + string" where
  "online ip_body geo_body url t =
     (if url = PUBLIC_IP_SERVICE_URL then Inr ip_body else Inr geo_body)"

text \<open>
  A host with no route to the network, so that \<open>connect\<close> fails, and on which the lookup
  of the host name raises \<open>e\<close>.
\<close>

definition stranded :: "py_exn \<Rightarrow> env" where
  "stranded e = (sample_env offline)\<lparr>connect := (\<lambda>t. Inl SocketError),
                                        gethostbyname := (\<lambda>h t. Inl e)\<rparr>"

text \<open>The first request of the process fails; every later one is answered with an empty body.\<close>

definition late_empty :: "string \<Rightarrow> nat \<Rightarrow> py_exn + string" where
  "late_empty url t = (if t = 0 then Inl URLError else Inr [])"

section \<open>The retry policy\<close>

lemma schedule_append: "schedule (xs @ ys) = schedule xs @ schedule ys"
  by (simp add: schedule_def)

lemma attempts: "[0..<MAX_RETRIES] = [0, 1, 2]"
  by (simp add: MAX_RETRIES_def upt_rec)

text \<open>
  When every request fails, the loop goes through all the attempts it is given: one
  request for each, and a wait after each but the last of the function.
\<close>

lemma fetch_loop_fail:
  assumes "\<forall>t. isl (urlopen env url t)"
  shows "\<exists>new. fetch_loop env url as st = (None, st\<lparr>trace := trace st @ new\<rparr>) \<and>
     schedule new = concat (map (\<lambda>a. Get url 5 #
         (if a < MAX_RETRIES - 1 then [Sleep (INITIAL_DELAY * 2 ^ a)] else [])) as)"
proof (induction as arbitrary: st)
  case Nil
  have "fetch_loop env url [] st = (None, st\<lparr>trace := trace st @ []\<rparr>)" by simp
  moreover have "schedule [] = concat (map (\<lambda>a. Get url 5 #
         (if a < MAX_RETRIES - 1 then [Sleep (INITIAL_DELAY * 2 ^ a)] else [])) [])"
    by (simp add: schedule_def)
  ultimately show ?case by blast
next
  case (Cons a as)
  from assms obtain e where e: "urlopen env url (now st) = Inl e"
    by (meson isl_def)
  define mid where "mid = [Get url 5,
      Stderr (if e = URLError then AttemptURLError (a + 1) MAX_RETRIES url
              else AttemptUnexpected (a + 1) MAX_RETRIES)] @
      (if a < MAX_RETRIES - 1
       then [Stderr (Retrying (INITIAL_DELAY * 2 ^ a)), Sleep (INITIAL_DELAY * 2 ^ a)] else [])"
  have step: "fetch_loop env url (a # as) st = fetch_loop env url as (st\<lparr>trace := trace st @ mid\<rparr>)"
    by (simp add: e emit_def Let_def mid_def)
  have smid: "schedule mid =
      Get url 5 # (if a < MAX_RETRIES - 1 then [Sleep (INITIAL_DELAY * 2 ^ a)] else [])"
    by (simp add: mid_def schedule_def)
  from Cons.IH [of "st\<lparr>trace := trace st @ mid\<rparr>"] obtain new where
    n: "fetch_loop env url as (st\<lparr>trace := trace st @ mid\<rparr>) =
          (None, st\<lparr>trace := trace st @ mid\<rparr>\<lparr>trace := trace (st\<lparr>trace := trace st @ mid\<rparr>) @ new\<rparr>)"
    and sn: "schedule new = concat (map (\<lambda>a. Get url 5 #
         (if a < MAX_RETRIES - 1 then [Sleep (INITIAL_DELAY * 2 ^ a)] else [])) as)"
    by blast
  have "fetch_loop env url (a # as) st = (None, st\<lparr>trace := trace st @ (mid @ new)\<rparr>)"
    unfolding step n by simp
  moreover have "schedule (mid @ new) = concat (map (\<lambda>a. Get url 5 #
         (if a < MAX_RETRIES - 1 then [Sleep (INITIAL_DELAY * 2 ^ a)] else [])) (a # as))"
    by (simp add: schedule_append smid sn)
  ultimately show ?case by blast
qed

text \<open>
  C1. When every attempt to fetch a URL fails, \<open>fetch_data_with_retry\<close> returns \<open>None\<close>
  after exactly \<open>MAX_RETRIES\<close> = 3 requests, each with a timeout of 5 seconds; it waits
  \<open>INITIAL_DELAY * 2 ^ 0\<close> = 1 second after the first failed attempt and
  \<open>INITIAL_DELAY * 2 ^ 1\<close> = 2 seconds after the second, and does not wait after the
  last one.
\<close>

theorem fetch_data_with_retry_all_fail:
  assumes "\<forall>t. isl (urlopen env url t)"
  shows "fst (fetch_data_with_retry env url st) = None \<and>
    schedule (since st (snd (fetch_data_with_retry env url st))) =
      [Get url 5, Sleep (INITIAL_DELAY * 2 ^ 0), Get url 5,
       Sleep (INITIAL_DELAY * 2 ^ 1), Get url 5] \<and>
    length (filter (\<lambda>e. e = Get url 5) (since st (snd (fetch_data_with_retry env url st))))
      = MAX_RETRIES \<and>
    MAX_RETRIES = 3 \<and> INITIAL_DELAY * 2 ^ 0 = 1 \<and> INITIAL_DELAY * 2 ^ 1 = 2"
proof -
  from fetch_loop_fail [OF assms, of "[0..<MAX_RETRIES]" st] obtain new where
    n: "fetch_loop env url [0..<MAX_RETRIES] st = (None, st\<lparr>trace := trace st @ new\<rparr>)"
    and sn0: "schedule new = concat (map (\<lambda>a. Get url 5 #
         (if a < MAX_RETRIES - 1 then [Sleep (INITIAL_DELAY * 2 ^ a)] else [])) [0..<MAX_RETRIES])"
    by blast
  have sn: "schedule new = [Get url 5, Sleep (INITIAL_DELAY * 2 ^ 0), Get url 5,
      Sleep (INITIAL_DELAY * 2 ^ 1), Get url 5]"
    unfolding sn0 attempts by (simp add: MAX_RETRIES_def)
  have f: "fetch_data_with_retry env url st = (None, st\<lparr>trace := trace st @ new\<rparr>)"
    unfolding fetch_data_with_retry_def by (rule n)
  have s: "since st (st\<lparr>trace := trace st @ new\<rparr>) = new"
    by (simp add: since_def)
  have "length (filter (\<lambda>e. e = Get url 5) new) =
      length (filter (\<lambda>e. e = Get url 5) (schedule new))"
    unfolding schedule_def filter_filter
    by (rule arg_cong [where f = length], rule filter_cong) auto
  then have "length (filter (\<lambda>e. e = Get url 5) new) = MAX_RETRIES"
    by (simp add: sn MAX_RETRIES_def)
  then show ?thesis
    by (simp add: f s sn INITIAL_DELAY_def MAX_RETRIES_def)
qed

theorem fetch_data_with_retry_all_fail_witness:
  "(\<forall>t. isl (urlopen (sample_env offline) ''https://ipinfo.io/json'' t)) \<and>
   fst (fetch_data_with_retry (sample_env offline) ''https://ipinfo.io/json'' initial) = None \<and>
   schedule (trace (snd (fetch_data_with_retry (sample_env offline) ''https://ipinfo.io/json'' initial))) =
     [Get ''https://ipinfo.io/json'' 5, Sleep 1, Get ''https://ipinfo.io/json'' 5, Sleep 2,
      Get ''https://ipinfo.io/json'' 5]"
proof -
  have h: "\<forall>t. isl (urlopen (sample_env offline) ''https://ipinfo.io/json'' t)"
    by (simp add: sample_env_def offline_def)
  have i: "since initial st = trace st" for st
    by (simp add: since_def initial_def)
  show ?thesis
    using h fetch_data_with_retry_all_fail [OF h, of initial]
    by (simp add: i INITIAL_DELAY_def)
qed

section \<open>The webhook notifier\<close>

text \<open>
  C7. Whatever the report text and whatever \<open>requests.post\<close> does, \<open>send_to_webhook\<close>
  returns normally after exactly one POST, to the configured address, with the body
  \<open>{"content": "```json\n<text>\n```"}\<close> and a timeout of 3 seconds; it has no other
  effect, so there is no second attempt.
\<close>

theorem send_to_webhook_single_post:
  "fst (send_to_webhook env text st) = Inr () \<and>
   since st (snd (send_to_webhook env text st)) =
     [Post ''Your_webhook_here''
        [(''content'', ''```json'' @ [CHR 0x0A] @ text @ [CHR 0x0A] @ ''```'')] 3] \<and>
   snd (send_to_webhook env text st) =
     st\<lparr>trace := trace st @ since st (snd (send_to_webhook env text st))\<rparr>"
  by (simp add: send_to_webhook_def Let_def emit_def since_def split: sum.splits)

section \<open>The WAN IP lookup\<close>

lemma strip_example: "strip (''203.0.113.5'' @ [CHR 0x0A]) = ''203.0.113.5''"
  by (simp add: strip_def isspace_def)

lemma strip_decompose:
  "\<exists>l r. s = l @ strip s @ r \<and> (\<forall>c \<in> set l \<union> set r. isspace c) \<and>
     (strip s \<noteq> [] \<longrightarrow> \<not> isspace (hd (strip s)) \<and> \<not> isspace (last (strip s)))"
proof -
  define l where "l = takeWhile isspace s"
  define m where "m = dropWhile isspace s"
  define r where "r = rev (takeWhile isspace (rev m))"
  have s: "s = l @ m" by (simp add: l_def m_def)
  have "rev m = takeWhile isspace (rev m) @ dropWhile isspace (rev m)" by simp
  then have "m = rev (dropWhile isspace (rev m)) @ r"
    unfolding r_def by (metis rev_append rev_rev_ident)
  then have m: "m = strip s @ r" by (simp add: strip_def m_def)
  have sp: "\<forall>c \<in> set l \<union> set r. isspace c"
    by (auto simp: l_def r_def dest: set_takeWhileD)
  have e: "strip s \<noteq> [] \<longrightarrow> \<not> isspace (hd (strip s)) \<and> \<not> isspace (last (strip s))"
  proof
    assume ne: "strip s \<noteq> []"
    then have d: "dropWhile isspace (rev m) \<noteq> []" by (simp add: strip_def m_def)
    have "\<not> isspace (hd (dropWhile isspace (rev m)))"
      using d hd_dropWhile by blast
    then have la: "\<not> isspace (last (strip s))"
      using d by (simp add: strip_def m_def last_rev)
    have mne: "m \<noteq> []" using m ne by auto
    then have "\<not> isspace (hd m)" unfolding m_def using hd_dropWhile by blast
    moreover have "hd m = hd (strip s)" using m ne by (metis hd_append2)
    ultimately show "\<not> isspace (hd (strip s)) \<and> \<not> isspace (last (strip s))"
      using la by simp
  qed
  from s m sp e show ?thesis by metis
qed

lemma fetch_first_body:
  "urlopen env url (now st) = Inr body \<Longrightarrow>
   fetch_data_with_retry env url st = (Some body, emit (Get url 5) st)"
  by (simp add: fetch_data_with_retry_def attempts)

lemma fetch_offline:
  "fst (fetch_data_with_retry (sample_env offline) url st) = None"
proof -
  have "\<forall>t. isl (urlopen (sample_env offline) url t)"
    by (simp add: sample_env_def offline_def)
  from fetch_loop_fail [OF this, of "[0..<MAX_RETRIES]" st] show ?thesis
    by (auto simp: fetch_data_with_retry_def)
qed

text \<open>
  C8, as stated, fails on a fetch that succeeds with an empty body: the fetch returns
  the body \<open>""\<close>, and \<open>get_public_ip\<close> returns the sentinel, not the trimmed body.
\<close>

theorem get_public_ip_empty_body_counterexample:
  "fst (fetch_data_with_retry (sample_env (online [] paris_body)) PUBLIC_IP_SERVICE_URL initial)
     = Some [] \<and>
   fst (get_public_ip (sample_env (online [] paris_body)) initial) = ''N/A (Connection Failed)'' \<and>
   fst (get_public_ip (sample_env (online [] paris_body)) initial) \<noteq> strip []"
proof -
  have "urlopen (sample_env (online [] paris_body)) PUBLIC_IP_SERVICE_URL (now initial) = Inr []"
    by (simp add: sample_env_def online_def)
  from fetch_first_body [OF this] show ?thesis
    by (simp add: get_public_ip_def strip_def)
qed

text \<open>
  C8, amended. When the fetch returns a body that is not empty, \<open>get_public_ip\<close>
  returns the body without its surrounding white space (the body \<open>"203.0.113.5\n"\<close>
  gives \<open>"203.0.113.5"\<close>); when the fetch is exhausted it returns the sentinel
  \<open>"N/A (Connection Failed)"\<close>.
\<close>

theorem get_public_ip_result:
  "(\<forall>body. fst (fetch_data_with_retry env PUBLIC_IP_SERVICE_URL st) = Some body \<and> body \<noteq> []
      \<longrightarrow> fst (get_public_ip env st) = strip body) \<and>
   (fst (fetch_data_with_retry env PUBLIC_IP_SERVICE_URL st) = None
      \<longrightarrow> fst (get_public_ip env st) = ''N/A (Connection Failed)'') \<and>
   strip (''203.0.113.5'' @ [CHR 0x0A]) = ''203.0.113.5''"
  using strip_example by (auto simp: get_public_ip_def split: prod.splits option.splits)

theorem get_public_ip_result_witness:
  "fst (fetch_data_with_retry (sample_env (online (''203.0.113.5'' @ [CHR 0x0A]) paris_body))
         PUBLIC_IP_SERVICE_URL initial) = Some (''203.0.113.5'' @ [CHR 0x0A]) \<and>
   fst (get_public_ip (sample_env (online (''203.0.113.5'' @ [CHR 0x0A]) paris_body)) initial)
     = ''203.0.113.5'' \<and>
   fst (fetch_data_with_retry (sample_env offline) PUBLIC_IP_SERVICE_URL initial) = None \<and>
   fst (get_public_ip (sample_env offline) initial) = ''N/A (Connection Failed)''"
proof -
  have "urlopen (sample_env (online (''203.0.113.5'' @ [CHR 0x0A]) paris_body))
          PUBLIC_IP_SERVICE_URL (now initial) = Inr (''203.0.113.5'' @ [CHR 0x0A])"
    by (simp add: sample_env_def online_def)
  from fetch_first_body [OF this]
  have a: "fst (fetch_data_with_retry (sample_env (online (''203.0.113.5'' @ [CHR 0x0A]) paris_body))
         PUBLIC_IP_SERVICE_URL initial) = Some (''203.0.113.5'' @ [CHR 0x0A])"
    by simp
  have b: "fst (fetch_data_with_retry (sample_env offline) PUBLIC_IP_SERVICE_URL initial) = None"
    by (rule fetch_offline)
  from a have a': "fst (get_public_ip (sample_env (online (''203.0.113.5'' @ [CHR 0x0A]) paris_body)) initial)
     = ''203.0.113.5''"
    using get_public_ip_result [of "sample_env (online (''203.0.113.5'' @ [CHR 0x0A]) paris_body)" initial]
    by simp
  from b have b': "fst (get_public_ip (sample_env offline) initial) = ''N/A (Connection Failed)''"
    using get_public_ip_result [of "sample_env offline" initial] by simp
  from a a' b b' show ?thesis by blast
qed



lemma fetch_late_empty:
  "fst (fetch_data_with_retry (sample_env late_empty) url initial) = Some []"
  unfolding fetch_data_with_retry_def attempts
  by (simp add: sample_env_def late_empty_def now_def emit_def initial_def Let_def MAX_RETRIES_def)

text \<open>
  C9. Success is the truth value of the body, not the completion of the fetch. A fetch
  that completes with an empty body, at the first attempt or at a later one, returns
  that body, yet \<open>get_public_ip\<close> returns \<open>"N/A (Connection Failed)"\<close> and
  \<open>get_geolocation\<close> returns \<open>"N/A (Location Lookup Failed)"\<close>: the results they give
  when the fetch returns \<open>None\<close>, as it does in a world \<open>down\<close> where every attempt fails. A
  body that is not empty is a success: \<open>get_public_ip\<close> returns it trimmed and
  \<open>get_geolocation\<close> goes on to parse it.
\<close>

theorem empty_body_is_failure:
  assumes "public_ip \<noteq> ''N/A (Connection Failed)''"
    and "\<forall>url t. isl (urlopen down url t)"
  shows "(urlopen env PUBLIC_IP_SERVICE_URL (now st) = Inr [] \<longrightarrow>
       fst (fetch_data_with_retry env PUBLIC_IP_SERVICE_URL st) = Some []) \<and>
    (urlopen env GEOLOCATION_SERVICE_URL (now st') = Inr [] \<longrightarrow>
       fst (fetch_data_with_retry env GEOLOCATION_SERVICE_URL st') = Some []) \<and>
    (fst (fetch_data_with_retry env PUBLIC_IP_SERVICE_URL st) = Some [] \<longrightarrow>
       fst (get_public_ip env st) = ''N/A (Connection Failed)'' \<and>
       fst (get_public_ip env st) = fst (get_public_ip down st)) \<and>
    (fst (fetch_data_with_retry env GEOLOCATION_SERVICE_URL st') = Some [] \<longrightarrow>
       fst (get_geolocation env public_ip st') = Inr ''N/A (Location Lookup Failed)'' \<and>
       fst (get_geolocation env public_ip st') = fst (get_geolocation down public_ip st')) \<and>
    (\<forall>body. fst (fetch_data_with_retry env PUBLIC_IP_SERVICE_URL st) = Some body \<and> body \<noteq> [] \<longrightarrow>
       fst (get_public_ip env st) = strip body) \<and>
    (\<forall>body. fst (fetch_data_with_retry env GEOLOCATION_SERVICE_URL st') = Some body \<and> body \<noteq> [] \<longrightarrow>
       fst (get_geolocation env public_ip st') = parse_location env body) \<and>
    (fst (fetch_data_with_retry env PUBLIC_IP_SERVICE_URL st) = None \<longrightarrow>
       fst (get_public_ip env st) = ''N/A (Connection Failed)'') \<and>
    (fst (fetch_data_with_retry env GEOLOCATION_SERVICE_URL st') = None \<longrightarrow>
       fst (get_geolocation env public_ip st') = Inr ''N/A (Location Lookup Failed)'')"
proof -
  have d: "fst (fetch_data_with_retry down url s) = None" for url s
  proof -
    from assms(2) have "\<forall>t. isl (urlopen down url t)" by simp
    from fetch_loop_fail [OF this, of "[0..<MAX_RETRIES]" s] show ?thesis
      by (auto simp: fetch_data_with_retry_def)
  qed
  have p: "fst (get_public_ip down st) = ''N/A (Connection Failed)''"
    using d [of PUBLIC_IP_SERVICE_URL st]
    by (auto simp: get_public_ip_def split: prod.splits)
  have g: "fst (get_geolocation down public_ip st') = Inr ''N/A (Location Lookup Failed)''"
    using d [of GEOLOCATION_SERVICE_URL st'] assms(1)
    by (auto simp: get_geolocation_def split: prod.splits)
  obtain r1 s1 where f1: "fetch_data_with_retry env PUBLIC_IP_SERVICE_URL st = (r1, s1)"
    by (cases "fetch_data_with_retry env PUBLIC_IP_SERVICE_URL st")
  obtain r2 s2 where f2: "fetch_data_with_retry env GEOLOCATION_SERVICE_URL st' = (r2, s2)"
    by (cases "fetch_data_with_retry env GEOLOCATION_SERVICE_URL st'")
  have ip: "fst (get_public_ip env st) =
      (case r1 of None \<Rightarrow> ''N/A (Connection Failed)''
       | Some body \<Rightarrow> if body \<noteq> [] then strip body else ''N/A (Connection Failed)'')"
    by (simp add: get_public_ip_def f1 split: option.splits)
  have geo: "fst (get_geolocation env public_ip st') =
      (case r2 of None \<Rightarrow> Inr ''N/A (Location Lookup Failed)''
       | Some body \<Rightarrow> if body \<noteq> [] then parse_location env body
                       else Inr ''N/A (Location Lookup Failed)'')"
    using assms(1) by (simp add: get_geolocation_def f2 split: option.splits)
  have a1: "urlopen env PUBLIC_IP_SERVICE_URL (now st) = Inr [] \<longrightarrow> r1 = Some []"
    using fetch_first_body [of env PUBLIC_IP_SERVICE_URL st "[]"] f1 by auto
  have a2: "urlopen env GEOLOCATION_SERVICE_URL (now st') = Inr [] \<longrightarrow> r2 = Some []"
    using fetch_first_body [of env GEOLOCATION_SERVICE_URL st' "[]"] f2 by auto
  show ?thesis
    unfolding f1 f2 fst_conv ip geo p g using a1 a2 by simp
qed

theorem empty_body_is_failure_witness:
  "''203.0.113.5'' \<noteq> ''N/A (Connection Failed)'' \<and>
   (\<forall>url t. isl (urlopen (sample_env offline) url t)) \<and>
   fst (fetch_data_with_retry (sample_env late_empty) PUBLIC_IP_SERVICE_URL initial) = Some [] \<and>
   fst (get_public_ip (sample_env late_empty) initial) = ''N/A (Connection Failed)'' \<and>
   fst (get_public_ip (sample_env late_empty) initial) = fst (get_public_ip (sample_env offline) initial) \<and>
   fst (fetch_data_with_retry (sample_env late_empty) GEOLOCATION_SERVICE_URL initial) = Some [] \<and>
   fst (get_geolocation (sample_env late_empty) ''203.0.113.5'' initial)
     = Inr ''N/A (Location Lookup Failed)'' \<and>
   fst (get_geolocation (sample_env late_empty) ''203.0.113.5'' initial)
     = fst (get_geolocation (sample_env offline) ''203.0.113.5'' initial) \<and>
   fst (get_public_ip (sample_env (online ''203.0.113.5'' paris_body)) initial) = ''203.0.113.5'' \<and>
   fst (get_public_ip (sample_env (online [] [])) initial) = ''N/A (Connection Failed)''"
proof -
  have c: "''203.0.113.5'' \<noteq> ''N/A (Connection Failed)''" by simp
  have d: "\<forall>url t. isl (urlopen (sample_env offline) url t)"
    by (simp add: sample_env_def offline_def)
  note L = empty_body_is_failure [OF c d, of "sample_env late_empty" initial initial]
  note O = empty_body_is_failure [OF c d, of "sample_env (online ''203.0.113.5'' paris_body)" initial initial]
  note E = empty_body_is_failure [OF c d, of "sample_env (online [] [])" initial initial]
  have l1: "fst (fetch_data_with_retry (sample_env late_empty) PUBLIC_IP_SERVICE_URL initial) = Some []"
    and l2: "fst (fetch_data_with_retry (sample_env late_empty) GEOLOCATION_SERVICE_URL initial) = Some []"
    by (rule fetch_late_empty)+
  have o1: "fst (fetch_data_with_retry (sample_env (online ''203.0.113.5'' paris_body))
        PUBLIC_IP_SERVICE_URL initial) = Some ''203.0.113.5''"
    by (rule fetch_first_body [THEN arg_cong [where f = fst], simplified])
       (simp add: sample_env_def online_def)
  have e1: "urlopen (sample_env (online [] [])) PUBLIC_IP_SERVICE_URL (now initial) = Inr []"
    by (simp add: sample_env_def online_def)
  have s: "strip ''203.0.113.5'' = ''203.0.113.5''"
    by (simp add: strip_def isspace_def)
  from L l1 l2 have r1: "fst (get_public_ip (sample_env late_empty) initial) = ''N/A (Connection Failed)'' \<and>
      fst (get_public_ip (sample_env late_empty) initial) = fst (get_public_ip (sample_env offline) initial) \<and>
      fst (get_geolocation (sample_env late_empty) ''203.0.113.5'' initial)
        = Inr ''N/A (Location Lookup Failed)'' \<and>
      fst (get_geolocation (sample_env late_empty) ''203.0.113.5'' initial)
        = fst (get_geolocation (sample_env offline) ''203.0.113.5'' initial)"
    by blast
  from O o1 s have r2: "fst (get_public_ip (sample_env (online ''203.0.113.5'' paris_body)) initial)
      = ''203.0.113.5''"
    by auto
  from E e1 have r3: "fst (get_public_ip (sample_env (online [] [])) initial) = ''N/A (Connection Failed)''"
    by blast
  from c d l1 l2 r1 r2 r3 show ?thesis by blast
qed

section \<open>The geolocation lookup\<close>

lemma fetch_geo_sample:
  "fetch_data_with_retry (sample_env (online ip body)) GEOLOCATION_SERVICE_URL st
     = (Some body, emit (Get GEOLOCATION_SERVICE_URL 5) st)"
  by (rule fetch_first_body)
     (simp add: sample_env_def online_def GEOLOCATION_SERVICE_URL_def PUBLIC_IP_SERVICE_URL_def)

lemma format_field_location:
  "map_of items key = Some v \<Longrightarrow> format_field env v = location_field env items key d"
  by (cases v) (simp_all add: location_field_def)

lemma parse_location_dict:
  "json_loads env body = Inr (PyDict items) \<Longrightarrow>
   parse_location env body =
     Inr (location_field env items ''city'' ''Unknown City'' @ '', '' @
          location_field env items ''region'' ''Unknown Region'' @ '', '' @
          location_field env items ''country'' ''Unknown Country'')"
proof -
  assume j: "json_loads env body = Inr (PyDict items)"
  have f: "(case dict_get (PyDict items) key (PyStr d) of Inl e \<Rightarrow> Inl e | Inr v \<Rightarrow> k v)
      = k (case map_of items key of Some v \<Rightarrow> v | None \<Rightarrow> PyStr d)" for key d
      and k :: "py_value \<Rightarrow> py_exn + string"
    by (simp split: option.splits)
  have g: "format_field env (case map_of items key of Some v \<Rightarrow> v | None \<Rightarrow> PyStr d)
      = location_field env items key d" for key d
  proof (cases "map_of items key")
    case None
    then show ?thesis by (simp add: location_field_def)
  next
    case (Some v)
    then show ?thesis by (simp add: format_field_location [OF Some])
  qed
  show ?thesis
    unfolding parse_location_def j sum.case f g by (rule refl)
qed

lemma sample_loads_paris:
  "json_loads (sample_env net) paris_body =
     Inr (PyDict [(''city'', PyStr ''Paris''), (''region'', PyStr ''Ile-de-France''),
                  (''country'', PyStr ''FR'')])"
  by (simp add: sample_env_def sample_loads_def)

lemma sample_loads_no_region:
  "json_loads (sample_env net) no_region_body =
     Inr (PyDict [(''city'', PyStr ''Paris''), (''country'', PyStr ''FR'')])"
  by (simp add: sample_env_def sample_loads_def) (simp add: paris_body_def no_region_body_def)

lemma sample_loads_garbage:
  "json_loads (sample_env net) ''<html>'' = Inl JSONDecodeError"
  by (simp add: sample_env_def sample_loads_def paris_body_def no_region_body_def)

text \<open>
  C3, as stated, fails on a fetch that succeeds with an empty body: the body cannot be
  parsed, and the result is the string of a failed fetch, not
  \<open>"N/A (Invalid response from location service)"\<close>.
\<close>

theorem get_geolocation_empty_body_counterexample:
  "fst (fetch_data_with_retry (sample_env (online ''203.0.113.5'' [])) GEOLOCATION_SERVICE_URL initial)
     = Some [] \<and>
   json_loads (sample_env (online ''203.0.113.5'' [])) [] = Inl JSONDecodeError \<and>
   fst (get_geolocation (sample_env (online ''203.0.113.5'' [])) ''203.0.113.5'' initial)
     = Inr ''N/A (Location Lookup Failed)'' \<and>
   fst (get_geolocation (sample_env (online ''203.0.113.5'' [])) ''203.0.113.5'' initial)
     \<noteq> Inr ''N/A (Invalid response from location service)''"
  by (simp add: get_geolocation_def fetch_geo_sample)
     (simp add: sample_env_def sample_loads_def paris_body_def no_region_body_def)

text \<open>
  C3, amended. For a public IP that is not the sentinel, \<open>get_geolocation\<close> returns:
  when the fetch gives a body that is not empty and \<open>json.loads\<close> makes a key/value
  object of it, the string \<open>"<city>, <region>, <country>"\<close>, each field being the value
  of its key or, when the key is absent, \<open>"Unknown City"\<close>, \<open>"Unknown Region"\<close>,
  \<open>"Unknown Country"\<close>; when the body is not empty and \<open>json.loads\<close> rejects it with
  \<open>JSONDecodeError\<close>, the string \<open>"N/A (Invalid response from location service)"\<close>;
  when the fetch fails or the body is empty, the string \<open>"N/A (Location Lookup Failed)"\<close>.
\<close>

theorem get_geolocation_result:
  assumes "public_ip \<noteq> ''N/A (Connection Failed)''"
  shows
   "(\<forall>body items. fst (fetch_data_with_retry env GEOLOCATION_SERVICE_URL st) = Some body \<and>
        body \<noteq> [] \<and> json_loads env body = Inr (PyDict items) \<longrightarrow>
      fst (get_geolocation env public_ip st) =
        Inr (location_field env items ''city'' ''Unknown City'' @ '', '' @
             location_field env items ''region'' ''Unknown Region'' @ '', '' @
             location_field env items ''country'' ''Unknown Country'')) \<and>
    (\<forall>body. fst (fetch_data_with_retry env GEOLOCATION_SERVICE_URL st) = Some body \<and>
        body \<noteq> [] \<and> json_loads env body = Inl JSONDecodeError \<longrightarrow>
      fst (get_geolocation env public_ip st) = Inr ''N/A (Invalid response from location service)'') \<and>
    (fst (fetch_data_with_retry env GEOLOCATION_SERVICE_URL st) = None \<or>
     fst (fetch_data_with_retry env GEOLOCATION_SERVICE_URL st) = Some [] \<longrightarrow>
      fst (get_geolocation env public_ip st) = Inr ''N/A (Location Lookup Failed)'')"
proof -
  obtain r s1 where f: "fetch_data_with_retry env GEOLOCATION_SERVICE_URL st = (r, s1)"
    by (cases "fetch_data_with_retry env GEOLOCATION_SERVICE_URL st")
  have a: "r = Some body \<Longrightarrow> body \<noteq> [] \<Longrightarrow>
      fst (get_geolocation env public_ip st) = parse_location env body" for body
    using assms by (simp add: get_geolocation_def f)
  have b: "json_loads env body = Inl JSONDecodeError \<Longrightarrow>
      parse_location env body = Inr ''N/A (Invalid response from location service)''" for body
    by (simp add: parse_location_def)
  have c: "r = None \<or> r = Some [] \<Longrightarrow>
      fst (get_geolocation env public_ip st) = Inr ''N/A (Location Lookup Failed)''"
    using assms by (auto simp: get_geolocation_def f)
  show ?thesis
    unfolding f fst_conv
  proof (intro conjI allI impI)
    fix body items
    assume "r = Some body \<and> body \<noteq> [] \<and> json_loads env body = Inr (PyDict items)"
    then show "fst (get_geolocation env public_ip st) =
        Inr (location_field env items ''city'' ''Unknown City'' @ '', '' @
             location_field env items ''region'' ''Unknown Region'' @ '', '' @
             location_field env items ''country'' ''Unknown Country'')"
      by (simp add: a parse_location_dict)
  next
    fix body
    assume "r = Some body \<and> body \<noteq> [] \<and> json_loads env body = Inl JSONDecodeError"
    then show "fst (get_geolocation env public_ip st) = Inr ''N/A (Invalid response from location service)''"
      by (simp add: a b)
  next
    assume "r = None \<or> r = Some []"
    then show "fst (get_geolocation env public_ip st) = Inr ''N/A (Location Lookup Failed)''"
      by (rule c)
  qed
qed

theorem get_geolocation_result_witness:
  "''203.0.113.5'' \<noteq> ''N/A (Connection Failed)'' \<and>
   fst (get_geolocation (sample_env (online ''203.0.113.5'' paris_body)) ''203.0.113.5'' initial)
     = Inr ''Paris, Ile-de-France, FR'' \<and>
   fst (get_geolocation (sample_env (online ''203.0.113.5'' no_region_body)) ''203.0.113.5'' initial)
     = Inr ''Paris, Unknown Region, FR'' \<and>
   fst (get_geolocation (sample_env (online ''203.0.113.5'' ''<html>'')) ''203.0.113.5'' initial)
     = Inr ''N/A (Invalid response from location service)'' \<and>
   fst (get_geolocation (sample_env offline) ''203.0.113.5'' initial)
     = Inr ''N/A (Location Lookup Failed)''"
proof -
  have h: "''203.0.113.5'' \<noteq> ''N/A (Connection Failed)''" by simp
  have p: "paris_body \<noteq> []" and n: "no_region_body \<noteq> []"
    by (simp_all add: paris_body_def no_region_body_def)
  have 1: "fst (get_geolocation (sample_env (online ''203.0.113.5'' paris_body)) ''203.0.113.5'' initial)
     = Inr ''Paris, Ile-de-France, FR''"
    using get_geolocation_result [OF h, of "sample_env (online ''203.0.113.5'' paris_body)" initial]
      p sample_loads_paris [of "online ''203.0.113.5'' paris_body"]
    by (simp add: fetch_geo_sample location_field_def)
  have 2: "fst (get_geolocation (sample_env (online ''203.0.113.5'' no_region_body)) ''203.0.113.5'' initial)
     = Inr ''Paris, Unknown Region, FR''"
    using get_geolocation_result [OF h, of "sample_env (online ''203.0.113.5'' no_region_body)" initial]
      n sample_loads_no_region [of "online ''203.0.113.5'' no_region_body"]
    by (simp add: fetch_geo_sample location_field_def)
  have 3: "fst (get_geolocation (sample_env (online ''203.0.113.5'' ''<html>'')) ''203.0.113.5'' initial)
     = Inr ''N/A (Invalid response from location service)''"
    using get_geolocation_result [OF h, of "sample_env (online ''203.0.113.5'' ''<html>'')" initial]
      sample_loads_garbage [of "online ''203.0.113.5'' ''<html>''"]
    by (simp add: fetch_geo_sample)
  have 4: "fst (get_geolocation (sample_env offline) ''203.0.113.5'' initial)
     = Inr ''N/A (Location Lookup Failed)''"
    using get_geolocation_result [OF h, of "sample_env offline" initial]
    by (simp add: fetch_offline)
  from h 1 2 3 4 show ?thesis by blast
qed

section \<open>The local info probe and its handlers\<close>

text \<open>The effects of the probe are added to the trace, and are its own.\<close>

lemma probe_local_ip_trace:
  "\<exists>tr. snd (probe_local_ip env h st) = st\<lparr>trace := trace st @ tr\<rparr> \<and>
     (\<forall>e \<in> set tr. is_local e \<and> e \<noteq> SocketClose)"
proof (cases "connect env (now st)")
  case (Inl e)
  then have "snd (probe_local_ip env h st) = st\<lparr>trace := trace st @ [Connect ''8.8.8.8'' 1, GetHostByName h]\<rparr>"
    by (simp add: probe_local_ip_def Let_def emit_def)
  moreover have "\<forall>e \<in> set [Connect ''8.8.8.8'' 1, GetHostByName h]. is_local e \<and> e \<noteq> SocketClose"
    by simp
  ultimately show ?thesis by blast
next
  case c: (Inr u)
  show ?thesis
  proof (cases "getsockname env (now (emit (Connect ''8.8.8.8'' 1) st))")
    case (Inl e)
    with c have "snd (probe_local_ip env h st) =
        st\<lparr>trace := trace st @ [Connect ''8.8.8.8'' 1, GetSockName, GetHostByName h]\<rparr>"
      by (simp add: probe_local_ip_def Let_def emit_def)
    moreover have "\<forall>e \<in> set [Connect ''8.8.8.8'' 1, GetSockName, GetHostByName h].
        is_local e \<and> e \<noteq> SocketClose"
      by simp
    ultimately show ?thesis by blast
  next
    case (Inr ip)
    with c have "snd (probe_local_ip env h st) =
        st\<lparr>trace := trace st @ [Connect ''8.8.8.8'' 1, GetSockName]\<rparr>"
      by (simp add: probe_local_ip_def Let_def emit_def)
    moreover have "\<forall>e \<in> set [Connect ''8.8.8.8'' 1, GetSockName]. is_local e \<and> e \<noteq> SocketClose"
      by simp
    ultimately show ?thesis by blast
  qed
qed

lemma on_socket_error_trace:
  "\<exists>tr. snd (on_socket_error e h st) = st\<lparr>trace := trace st @ tr\<rparr> \<and>
     (\<forall>e \<in> set tr. is_local e \<and> e \<noteq> SocketClose)"
proof (cases "is_socket_error e")
  case True
  then have "snd (on_socket_error e h st) = st\<lparr>trace := trace st @ [Stderr LocalInfoError]\<rparr>"
    by (simp add: on_socket_error_def emit_def)
  then show ?thesis by fastforce
next
  case False
  then have "snd (on_socket_error e h st) = st\<lparr>trace := trace st @ []\<rparr>"
    by (simp add: on_socket_error_def)
  then show ?thesis by fastforce
qed

text \<open>The three ways through \<open>get_local_info\<close>.\<close>

lemma get_local_info_unnamed:
  "gethostname env (now st) = Inl e \<Longrightarrow>
   get_local_info env st = on_socket_error e ''N/A'' (emit GetHostName st)"
  by (simp add: get_local_info_def Let_def)

lemma get_local_info_unopened:
  "gethostname env (now st) = Inr hostname \<Longrightarrow>
   socket_new env (now (emit GetHostName st)) = Inl e \<Longrightarrow>
   get_local_info env st = on_socket_error e hostname (emit SocketNew (emit GetHostName st))"
  by (simp add: get_local_info_def Let_def)

lemma get_local_info_opened:
  "gethostname env (now st) = Inr hostname \<Longrightarrow>
   socket_new env (now (emit GetHostName st)) = Inr u \<Longrightarrow>
   probe_local_ip env hostname
     ((emit SocketNew (emit GetHostName st))\<lparr>open_sockets := open_sockets st + 1\<rparr>) = (r, s3) \<Longrightarrow>
   close_socket env s3 = (c, s4) \<Longrightarrow>
   get_local_info env st =
     (case c of
        Inl e \<Rightarrow> on_socket_error e hostname s4
      | Inr u' \<Rightarrow>
          (case r of Inl e \<Rightarrow> on_socket_error e hostname s4
           | Inr local_ip \<Rightarrow> (Inr (hostname, local_ip), s4)))"
  by (simp add: get_local_info_def Let_def emit_def split: sum.splits)

lemma get_local_info_trace:
  "\<exists>tr. snd (get_local_info env st) = st\<lparr>trace := trace st @ tr\<rparr> \<and>
     (\<forall>e \<in> set tr. is_local e) \<and>
     ((\<exists>hostname u. gethostname env (now st) = Inr hostname \<and>
         socket_new env (Suc (now st)) = Inr u) \<longrightarrow> SocketClose \<in> set tr)"
proof (cases "gethostname env (now st)")
  case (Inl e)
  from on_socket_error_trace [of e "''N/A''" "emit GetHostName st"] obtain tr where
    t: "snd (on_socket_error e ''N/A'' (emit GetHostName st)) =
          (emit GetHostName st)\<lparr>trace := trace (emit GetHostName st) @ tr\<rparr>"
    and l: "\<forall>e \<in> set tr. is_local e \<and> e \<noteq> SocketClose"
    by blast
  have "snd (get_local_info env st) = st\<lparr>trace := trace st @ (GetHostName # tr)\<rparr>"
    unfolding get_local_info_unnamed [OF Inl] t by (simp add: emit_def)
  moreover have "\<forall>e \<in> set (GetHostName # tr). is_local e" using l by simp
  ultimately show ?thesis using Inl by fastforce
next
  case hn: (Inr hostname)
  have n1: "now (emit GetHostName st) = Suc (now st)" by (simp add: now_def emit_def)
  show ?thesis
  proof (cases "socket_new env (now (emit GetHostName st))")
    case (Inl e)
    from on_socket_error_trace [of e hostname "emit SocketNew (emit GetHostName st)"] obtain tr where
      t: "snd (on_socket_error e hostname (emit SocketNew (emit GetHostName st))) =
            (emit SocketNew (emit GetHostName st))\<lparr>trace := trace (emit SocketNew (emit GetHostName st)) @ tr\<rparr>"
      and l: "\<forall>e \<in> set tr. is_local e \<and> e \<noteq> SocketClose"
      by blast
    have "snd (get_local_info env st) = st\<lparr>trace := trace st @ (GetHostName # SocketNew # tr)\<rparr>"
      unfolding get_local_info_unopened [OF hn Inl] t by (simp add: emit_def)
    moreover have "\<forall>e \<in> set (GetHostName # SocketNew # tr). is_local e" using l by simp
    ultimately show ?thesis using Inl n1 by fastforce
  next
    case sn: (Inr u)
    define s2 where "s2 = (emit SocketNew (emit GetHostName st))\<lparr>open_sockets := open_sockets st + 1\<rparr>"
    obtain r s3 where p: "probe_local_ip env hostname s2 = (r, s3)"
      by (cases "probe_local_ip env hostname s2")
    from probe_local_ip_trace [of env hostname s2] p obtain tr1 where
      t1: "s3 = s2\<lparr>trace := trace s2 @ tr1\<rparr>"
      and l1: "\<forall>e \<in> set tr1. is_local e \<and> e \<noteq> SocketClose"
      by auto
    obtain c s4 where cs: "close_socket env s3 = (c, s4)"
      by (cases "close_socket env s3")
    then have s4: "s4 = st\<lparr>trace := trace st @ (GetHostName # SocketNew # tr1 @ [SocketClose])\<rparr>"
      by (auto simp: close_socket_def t1 s2_def emit_def)
    note g = get_local_info_opened [OF hn sn p [unfolded s2_def] cs]
    have "\<exists>tr2. snd (get_local_info env st) = s4\<lparr>trace := trace s4 @ tr2\<rparr> \<and>
        (\<forall>e \<in> set tr2. is_local e \<and> e \<noteq> SocketClose)"
    proof (cases c)
      case (Inl e)
      then show ?thesis using on_socket_error_trace [of e hostname s4] by (simp add: g)
    next
      case cl: (Inr u')
      show ?thesis
      proof (cases r)
        case (Inl e)
        then show ?thesis using cl on_socket_error_trace [of e hostname s4] by (simp add: g)
      next
        case (Inr ip)
        then have "snd (get_local_info env st) = s4\<lparr>trace := trace s4 @ []\<rparr>"
          using cl by (simp add: g)
        then show ?thesis by fastforce
      qed
    qed
    then obtain tr2 where
      t2: "snd (get_local_info env st) = s4\<lparr>trace := trace s4 @ tr2\<rparr>"
      and l2: "\<forall>e \<in> set tr2. is_local e \<and> e \<noteq> SocketClose"
      by blast
    have "snd (get_local_info env st) =
        st\<lparr>trace := trace st @ (GetHostName # SocketNew # tr1 @ [SocketClose] @ tr2)\<rparr>"
      by (simp add: t2 s4)
    moreover have "\<forall>e \<in> set (GetHostName # SocketNew # tr1 @ [SocketClose] @ tr2). is_local e"
      using l1 l2 by auto
    moreover have "SocketClose \<in> set (GetHostName # SocketNew # tr1 @ [SocketClose] @ tr2)"
      by simp
    ultimately show ?thesis by blast
  qed
qed

lemma get_local_info_no_socket_error:
  "fst (get_local_info env st) = Inl e \<Longrightarrow> \<not> is_socket_error e"
  by (auto simp: get_local_info_def probe_local_ip_def close_socket_def on_socket_error_def
      Let_def split: sum.splits prod.splits if_splits)

lemma probe_local_ip_cases:
  "(case fst (probe_local_ip env hostname st) of
      Inl e \<Rightarrow> \<exists>t. gethostbyname env hostname t = Inl e
    | Inr ip \<Rightarrow> (\<exists>t. getsockname env t = Inr ip) \<or> (\<exists>t. gethostbyname env hostname t = Inr ip))"
  by (auto simp: probe_local_ip_def Let_def split: sum.splits)

lemma get_local_info_pair:
  assumes "only_socket_errors env"
  shows "\<exists>h ip. fst (get_local_info env st) = Inr (h, ip) \<and>
       (case gethostname env (now st) of
          Inl e \<Rightarrow> h = ''N/A'' \<and> ip = ''N/A''
        | Inr hostname \<Rightarrow> h = hostname \<and>
            (ip = ''N/A'' \<or> (\<exists>t. getsockname env t = Inr ip) \<or>
             (\<exists>t. gethostbyname env hostname t = Inr ip)))"
proof -
  have a: "gethostname env t = Inl e \<Longrightarrow> is_socket_error e"
    and b: "socket_new env t = Inl e \<Longrightarrow> is_socket_error e"
    and c: "gethostbyname env h t = Inl e \<Longrightarrow> is_socket_error e"
    and d: "socket_close env t = Inl e \<Longrightarrow> is_socket_error e" for t h e
    using assms unfolding only_socket_errors_def by blast+
  show ?thesis
  proof (cases "gethostname env (now st)")
    case (Inl e)
    with a have "is_socket_error e" by blast
    with Inl show ?thesis
      by (simp add: get_local_info_def on_socket_error_def Let_def)
  next
    case hn: (Inr hostname)
    show ?thesis
    proof (cases "socket_new env (now (emit GetHostName st))")
      case (Inl e)
      with b have "is_socket_error e" by blast
      with hn Inl show ?thesis
        by (simp add: get_local_info_def on_socket_error_def Let_def)
    next
      case sn: (Inr u)
      define s2 where "s2 = (emit SocketNew (emit GetHostName st))\<lparr>open_sockets :=
          open_sockets (emit SocketNew (emit GetHostName st)) + 1\<rparr>"
      obtain r s3 where p: "probe_local_ip env hostname s2 = (r, s3)"
        by (cases "probe_local_ip env hostname s2")
      have g: "get_local_info env st =
          (case close_socket env s3 of
             (Inl e, s4) \<Rightarrow> on_socket_error e hostname s4
           | (Inr u', s4) \<Rightarrow>
               (case r of Inl e \<Rightarrow> on_socket_error e hostname s4
                | Inr local_ip \<Rightarrow> (Inr (hostname, local_ip), s4)))"
        using hn sn p by (simp add: get_local_info_def Let_def s2_def)
      have pr: "case r of
          Inl e \<Rightarrow> \<exists>t. gethostbyname env hostname t = Inl e
        | Inr ip \<Rightarrow> (\<exists>t. getsockname env t = Inr ip) \<or> (\<exists>t. gethostbyname env hostname t = Inr ip)"
        using probe_local_ip_cases [of env hostname s2] by (simp add: p)
      show ?thesis
      proof (cases "socket_close env (now s3)")
        case (Inl e)
        with d have "is_socket_error e" by blast
        with Inl hn show ?thesis
          by (simp add: g close_socket_def on_socket_error_def)
      next
        case cl: (Inr u')
        show ?thesis
        proof (cases r)
          case (Inl e)
          with pr c have "is_socket_error e" by auto
          with Inl cl hn show ?thesis
            by (simp add: g close_socket_def on_socket_error_def)
        next
          case (Inr ip)
          with pr cl hn show ?thesis
            by (simp add: g close_socket_def)
        qed
      qed
    qed
  qed
qed

text \<open>
  What the handlers of \<open>get_local_info\<close> do give. No \<open>socket.error\<close> ever leaves the
  function. When the operations outside its inner \<open>try\<close> (reading the host name, creating
  the socket, the fallback lookup of the host name, closing the socket) raise nothing but
  \<open>socket.error\<close>, it returns a pair of strings: \<open>("N/A", "N/A")\<close> when the host name
  cannot be read, otherwise the host name with \<open>"N/A"\<close> or with an address that the
  socket or the lookup gave. The socket it opens is closed on every exit path, also when
  an exception leaves the function.
\<close>

theorem get_local_info_result:
  "(\<forall>e. fst (get_local_info env st) = Inl e \<longrightarrow> \<not> is_socket_error e) \<and>
   (only_socket_errors env \<longrightarrow>
      (\<exists>h ip. fst (get_local_info env st) = Inr (h, ip) \<and>
         (case gethostname env (now st) of
            Inl e \<Rightarrow> h = ''N/A'' \<and> ip = ''N/A''
          | Inr hostname \<Rightarrow> h = hostname \<and>
              (ip = ''N/A'' \<or> (\<exists>t. getsockname env t = Inr ip) \<or>
               (\<exists>t. gethostbyname env hostname t = Inr ip))))) \<and>
   open_sockets (snd (get_local_info env st)) = open_sockets st \<and>
   ((\<exists>hostname u. gethostname env (now st) = Inr hostname \<and>
        socket_new env (Suc (now st)) = Inr u) \<longrightarrow>
      SocketClose \<in> set (since st (snd (get_local_info env st))))"
proof -
  from get_local_info_trace [of env st] obtain tr where
    t: "snd (get_local_info env st) = st\<lparr>trace := trace st @ tr\<rparr>"
    and c: "(\<exists>hostname u. gethostname env (now st) = Inr hostname \<and>
         socket_new env (Suc (now st)) = Inr u) \<longrightarrow> SocketClose \<in> set tr"
    by blast
  have s: "since st (st\<lparr>trace := trace st @ tr\<rparr>) = tr"
    by (simp add: since_def)
  show ?thesis
    using get_local_info_no_socket_error [of env st] get_local_info_pair [of env st] c
    by (simp add: s t)
qed

theorem get_local_info_result_witness:
  "only_socket_errors (stranded SocketError) \<and>
   fst (get_local_info (stranded SocketError) initial) = Inr (''desktop'', ''N/A'') \<and>
   open_sockets (snd (get_local_info (stranded SocketError) initial)) = open_sockets initial \<and>
   SocketClose \<in> set (since initial (snd (get_local_info (stranded SocketError) initial)))"
proof -
  have o: "only_socket_errors (stranded SocketError)"
    by (simp add: only_socket_errors_def stranded_def sample_env_def)
  have g: "gethostname (stranded SocketError) (now initial) = Inr ''desktop''"
    and n: "socket_new (stranded SocketError) (Suc (now initial)) = Inr ()"
    by (simp_all add: stranded_def sample_env_def)
  have r: "fst (get_local_info (stranded SocketError) initial) = Inr (''desktop'', ''N/A'')"
    by (simp add: get_local_info_def probe_local_ip_def close_socket_def on_socket_error_def
        stranded_def sample_env_def Let_def emit_def now_def initial_def)
  from get_local_info_result [of "stranded SocketError" initial] o g n r
  show ?thesis by simp
qed

section \<open>What the fetchers add to the trace\<close>

lemma fetch_loop_trace:
  "\<exists>tr. snd (fetch_loop env url as st) = st\<lparr>trace := trace st @ tr\<rparr> \<and>
        (\<forall>e \<in> set tr. is_fetch url e)"
proof (induction as arbitrary: st)
  case Nil
  have "snd (fetch_loop env url [] st) = st\<lparr>trace := trace st @ []\<rparr>" by simp
  then show ?case by fastforce
next
  case (Cons a as)
  show ?case
  proof (cases "urlopen env url (now st)")
    case (Inr body)
    then have "snd (fetch_loop env url (a # as) st) = st\<lparr>trace := trace st @ [Get url 5]\<rparr>"
      by (simp add: emit_def)
    moreover have "\<forall>e \<in> set [Get url 5]. is_fetch url e" by simp
    ultimately show ?thesis by blast
  next
    case (Inl e)
    define mid where "mid = [Get url 5,
      Stderr (if e = URLError then AttemptURLError (a + 1) MAX_RETRIES url
              else AttemptUnexpected (a + 1) MAX_RETRIES)] @
      (if a < MAX_RETRIES - 1
       then [Stderr (Retrying (INITIAL_DELAY * 2 ^ a)), Sleep (INITIAL_DELAY * 2 ^ a)] else [])"
    have step: "fetch_loop env url (a # as) st = fetch_loop env url as (st\<lparr>trace := trace st @ mid\<rparr>)"
      by (simp add: Inl emit_def Let_def mid_def)
    have m: "\<forall>e \<in> set mid. is_fetch url e" by (auto simp: mid_def)
    from Cons.IH [of "st\<lparr>trace := trace st @ mid\<rparr>"] obtain tr where
      t: "snd (fetch_loop env url as (st\<lparr>trace := trace st @ mid\<rparr>)) = st\<lparr>trace := trace st @ mid @ tr\<rparr>"
      and c: "\<forall>e \<in> set tr. is_fetch url e"
      by auto
    have "snd (fetch_loop env url (a # as) st) = st\<lparr>trace := trace st @ (mid @ tr)\<rparr>"
      unfolding step t by simp
    moreover have "\<forall>e \<in> set (mid @ tr). is_fetch url e" using m c by auto
    ultimately show ?thesis by blast
  qed
qed

lemma get_public_ip_trace:
  "\<exists>tr. snd (get_public_ip env st) = st\<lparr>trace := trace st @ tr\<rparr> \<and>
        (\<forall>e \<in> set tr. is_fetch PUBLIC_IP_SERVICE_URL e)"
proof -
  have "snd (get_public_ip env st) = snd (fetch_loop env PUBLIC_IP_SERVICE_URL [0..<MAX_RETRIES] st)"
    by (simp add: get_public_ip_def fetch_data_with_retry_def split: prod.splits option.splits)
  then show ?thesis using fetch_loop_trace by simp
qed

lemma get_geolocation_trace:
  "\<exists>tr. snd (get_geolocation env public_ip st) = st\<lparr>trace := trace st @ tr\<rparr> \<and>
        (\<forall>e \<in> set tr. is_fetch GEOLOCATION_SERVICE_URL e) \<and>
        (public_ip = ''N/A (Connection Failed)'' \<longrightarrow> tr = [])"
proof (cases "public_ip = ''N/A (Connection Failed)''")
  case True
  then have "snd (get_geolocation env public_ip st) = st\<lparr>trace := trace st @ []\<rparr>"
    by (simp add: get_geolocation_def)
  with True show ?thesis by fastforce
next
  case False
  then have "snd (get_geolocation env public_ip st)
      = snd (fetch_loop env GEOLOCATION_SERVICE_URL [0..<MAX_RETRIES] st)"
    by (simp add: get_geolocation_def fetch_data_with_retry_def split: prod.splits option.splits)
  with False show ?thesis using fetch_loop_trace by simp
qed

section \<open>What a run of \<open>main\<close> adds to the trace and to the captured output\<close>

lemma print_captured:
  "sys_stdout st = TerminalOutput \<Longrightarrow>
   print x st = st\<lparr>terminal_output := terminal_output st @ x @ [CHR 0x0A]\<rparr>"
  by (simp add: print_def)

lemma public_section_extend:
  assumes "sys_stdout st = TerminalOutput"
  shows "\<exists>tr out. snd (public_section env st) = extend st tr out \<and>
     (\<forall>e \<in> set tr. is_fetch PUBLIC_IP_SERVICE_URL e \<or> is_fetch GEOLOCATION_SERVICE_URL e) \<and>
     (fst (get_public_ip env st) = ''N/A (Connection Failed)'' \<longrightarrow>
        (\<forall>e \<in> set tr. is_fetch PUBLIC_IP_SERVICE_URL e) \<and> fst (public_section env st) = Inr ()) \<and>
     (fst (public_section env st) = Inr () \<longrightarrow>
        (\<exists>location. out = concat (map (\<lambda>line. line @ [CHR 0x0A])
           [''Public IP Address (WAN): '' @ fst (get_public_ip env st),
            ''Estimated Location:      '' @ location,
            ''--------------------------------------------------'',
            CHR 0x0A # ''[Image of network topology]''])))"
proof -
  obtain public_ip s1 where p: "get_public_ip env st = (public_ip, s1)"
    by (cases "get_public_ip env st")
  from get_public_ip_trace [of env st] p obtain tr1 where
    s1: "s1 = st\<lparr>trace := trace st @ tr1\<rparr>"
    and c1: "\<forall>e \<in> set tr1. is_fetch PUBLIC_IP_SERVICE_URL e"
    by auto
  define s2 where "s2 = print (''Public IP Address (WAN): '' @ public_ip) s1"
  have s2: "s2 = extend st tr1 (''Public IP Address (WAN): '' @ public_ip @ [CHR 0x0A])"
    using assms by (simp add: s2_def s1 print_captured extend_def)
  have o2: "sys_stdout s2 = TerminalOutput" using assms by (simp add: s2 extend_def)
  show ?thesis
  proof (cases "public_ip = ''N/A (Connection Failed)''")
    case True
    have r: "public_section env st =
        (Inr (), print (CHR 0x0A # ''[Image of network topology]'')
           (print ''--------------------------------------------------''
             (print ''Estimated Location:      N/A (Failed to retrieve Public IP)'' s2)))"
      unfolding public_section_def p prod.case Let_def s2_def [symmetric]
      using True by simp
    have "snd (public_section env st) = extend st tr1
        (concat (map (\<lambda>line. line @ [CHR 0x0A])
           [''Public IP Address (WAN): '' @ public_ip,
            ''Estimated Location:      '' @ ''N/A (Failed to retrieve Public IP)'',
            ''--------------------------------------------------'',
            CHR 0x0A # ''[Image of network topology]'']))"
      unfolding r using assms by (simp add: s2 print_captured extend_def)
    with c1 r p show ?thesis by fastforce
  next
    case False
    obtain g s3 where g: "get_geolocation env public_ip s2 = (g, s3)"
      by (cases "get_geolocation env public_ip s2")
    from get_geolocation_trace [of env public_ip s2] g obtain tr2 where
      s3: "s3 = s2\<lparr>trace := trace s2 @ tr2\<rparr>"
      and c2: "\<forall>e \<in> set tr2. is_fetch GEOLOCATION_SERVICE_URL e"
      by auto
    have c: "\<forall>e \<in> set (tr1 @ tr2). is_fetch PUBLIC_IP_SERVICE_URL e \<or> is_fetch GEOLOCATION_SERVICE_URL e"
      using c1 c2 by auto
    show ?thesis
    proof (cases g)
      case (Inl e)
      have r: "public_section env st = (Inl e, s3)"
        unfolding public_section_def p prod.case Let_def s2_def [symmetric] g
        using False Inl by simp
      have "snd (public_section env st) = extend st (tr1 @ tr2)
          (''Public IP Address (WAN): '' @ public_ip @ [CHR 0x0A])"
        unfolding r by (simp add: s3 s2 extend_def)
      with c r p False show ?thesis by fastforce
    next
      case (Inr location)
      have r: "public_section env st =
        (Inr (), print (CHR 0x0A # ''[Image of network topology]'')
           (print ''--------------------------------------------------''
             (print (''Estimated Location:      '' @ location) s3)))"
        unfolding public_section_def p prod.case Let_def s2_def [symmetric] g
        using False Inr by simp
      have "snd (public_section env st) = extend st (tr1 @ tr2)
        (concat (map (\<lambda>line. line @ [CHR 0x0A])
           [''Public IP Address (WAN): '' @ public_ip,
            ''Estimated Location:      '' @ location,
            ''--------------------------------------------------'',
            CHR 0x0A # ''[Image of network topology]'']))"
        unfolding r using assms by (simp add: s3 s2 print_captured extend_def)
      with c r p False show ?thesis by fastforce
    qed
  qed
qed

lemma main_extend:
  assumes "sys_stdout st = TerminalOutput"
  shows "\<exists>tr out. snd (main env st) = extend st (EnterMain # tr) out \<and>
     (\<forall>e \<in> set tr. is_probe e) \<and>
     (fst (main env st) = Inr () \<longrightarrow>
        (\<exists>hostname local_ip public_ip location.
           out = report_text hostname local_ip public_ip location))"
proof -
  define s4 where "s4 =
     print (CHR 0x0A # ''[LOCAL NETWORK INFORMATION (No external calls)]'')
       (print ''--------------------------------------------------''
         (print ''        Network and Host Information Utility        ''
           (print ''--------------------------------------------------'' (emit EnterMain st))))"
  define head where "head = concat (map (\<lambda>line. line @ [CHR 0x0A])
       [''--------------------------------------------------'',
        ''        Network and Host Information Utility        '',
        ''--------------------------------------------------'',
        CHR 0x0A # ''[LOCAL NETWORK INFORMATION (No external calls)]''])"
  have s4: "s4 = extend st [EnterMain] head"
    using assms by (simp add: s4_def head_def print_captured extend_def emit_def)
  obtain r s5 where l: "get_local_info env s4 = (r, s5)"
    by (cases "get_local_info env s4")
  from get_local_info_trace [of env s4] l obtain tr1 where
    s5: "s5 = s4\<lparr>trace := trace s4 @ tr1\<rparr>"
    and c1: "\<forall>e \<in> set tr1. is_local e"
    by auto
  have m: "main env st =
      (case r of Inl e \<Rightarrow> (Inl e, s5)
       | Inr (hostname, local_ip) \<Rightarrow>
           public_section env
             (print (CHR 0x0A # ''[PUBLIC NETWORK INFORMATION (Requires external calls)]'')
               (print (''Local IP Address (LAN):  '' @ local_ip)
                 (print (''Desktop Name (Hostname): '' @ hostname) s5))))"
    unfolding main_def Let_def s4_def [symmetric] l prod.case
    by (simp split: sum.splits)
  show ?thesis
  proof (cases r)
    case (Inl e)
    then have "snd (main env st) = extend st (EnterMain # tr1) head"
      by (simp add: m s5 s4 extend_def)
    moreover have "\<forall>e \<in> set tr1. is_probe e" using c1 by (simp add: is_probe_def)
    moreover have "fst (main env st) \<noteq> Inr ()" using Inl by (simp add: m)
    ultimately show ?thesis by blast
  next
    case (Inr pair)
    obtain hostname local_ip where pair: "pair = (hostname, local_ip)" by (cases pair)
    define s8 where "s8 =
        print (CHR 0x0A # ''[PUBLIC NETWORK INFORMATION (Requires external calls)]'')
          (print (''Local IP Address (LAN):  '' @ local_ip)
            (print (''Desktop Name (Hostname): '' @ hostname) s5))"
    define mid where "mid = concat (map (\<lambda>line. line @ [CHR 0x0A])
       [''Desktop Name (Hostname): '' @ hostname,
        ''Local IP Address (LAN):  '' @ local_ip,
        CHR 0x0A # ''[PUBLIC NETWORK INFORMATION (Requires external calls)]''])"
    have s8: "s8 = extend st (EnterMain # tr1) (head @ mid)"
      using assms by (simp add: s8_def mid_def s5 s4 print_captured extend_def)
    have o8: "sys_stdout s8 = TerminalOutput" using assms by (simp add: s8 extend_def)
    have m8: "main env st = public_section env s8"
      unfolding m Inr pair s8_def by simp
    from public_section_extend [OF o8, of env] obtain tr2 out where
      e: "snd (public_section env s8) = extend s8 tr2 out"
      and c2: "\<forall>e \<in> set tr2. is_fetch PUBLIC_IP_SERVICE_URL e \<or> is_fetch GEOLOCATION_SERVICE_URL e"
      and t: "fst (public_section env s8) = Inr () \<longrightarrow>
        (\<exists>location. out = concat (map (\<lambda>line. line @ [CHR 0x0A])
           [''Public IP Address (WAN): '' @ fst (get_public_ip env s8),
            ''Estimated Location:      '' @ location,
            ''--------------------------------------------------'',
            CHR 0x0A # ''[Image of network topology]'']))"
      by blast
    have "snd (main env st) = extend st (EnterMain # tr1 @ tr2) (head @ mid @ out)"
      unfolding m8 e by (simp add: s8 extend_def)
    moreover have "\<forall>e \<in> set (tr1 @ tr2). is_probe e"
      using c1 c2 by (auto simp: is_probe_def)
    moreover have "fst (main env st) = Inr () \<longrightarrow>
        (\<exists>hostname local_ip public_ip location.
           head @ mid @ out = report_text hostname local_ip public_ip location)"
    proof
      assume "fst (main env st) = Inr ()"
      with t m8 obtain location where "out = concat (map (\<lambda>line. line @ [CHR 0x0A])
           [''Public IP Address (WAN): '' @ fst (get_public_ip env s8),
            ''Estimated Location:      '' @ location,
            ''--------------------------------------------------'',
            CHR 0x0A # ''[Image of network topology]''])"
        by auto
      then have "head @ mid @ out =
          report_text hostname local_ip (fst (get_public_ip env s8)) location"
        by (simp add: head_def mid_def report_text_def)
      then show "\<exists>hostname local_ip public_ip location.
           head @ mid @ out = report_text hostname local_ip public_ip location"
        by blast
    qed
    ultimately show ?thesis by blast
  qed
qed

section \<open>No geolocation without a public IP\<close>

lemma trace_print: "trace (print x s) = trace s"
  by (simp add: print_def split: stream.splits)

lemma geo_not_public:
  "is_fetch PUBLIC_IP_SERVICE_URL e \<Longrightarrow> e \<noteq> Get GEOLOCATION_SERVICE_URL t"
  by (cases e) (auto simp: PUBLIC_IP_SERVICE_URL_def GEOLOCATION_SERVICE_URL_def)

lemma geo_not_local: "is_local e \<Longrightarrow> e \<noteq> Get url t"
  by (cases e) auto

lemma public_section_skips:
  assumes "fst (get_public_ip env st) = ''N/A (Connection Failed)''"
  shows "\<exists>tr. trace (snd (public_section env st)) = trace st @ tr \<and>
     (\<forall>e \<in> set tr. is_fetch PUBLIC_IP_SERVICE_URL e) \<and> fst (public_section env st) = Inr ()"
proof -
  obtain public_ip s1 where p: "get_public_ip env st = (public_ip, s1)"
    by (cases "get_public_ip env st")
  with assms have ip: "public_ip = ''N/A (Connection Failed)''" by simp
  from get_public_ip_trace [of env st] p obtain tr where
    s1: "s1 = st\<lparr>trace := trace st @ tr\<rparr>"
    and c: "\<forall>e \<in> set tr. is_fetch PUBLIC_IP_SERVICE_URL e"
    by auto
  have "trace (snd (public_section env st)) = trace st @ tr \<and> fst (public_section env st) = Inr ()"
    unfolding public_section_def p prod.case Let_def using ip
    by (simp add: trace_print s1)
  with c show ?thesis by blast
qed

lemma main_skips:
  assumes "\<forall>s. fst (get_public_ip env s) = ''N/A (Connection Failed)''"
  shows "\<exists>tr. trace (snd (main env st)) = trace st @ tr \<and>
     (\<forall>e \<in> set tr. e = EnterMain \<or> is_local e \<or> is_fetch PUBLIC_IP_SERVICE_URL e)"
proof -
  define s4 where "s4 =
     print (CHR 0x0A # ''[LOCAL NETWORK INFORMATION (No external calls)]'')
       (print ''--------------------------------------------------''
         (print ''        Network and Host Information Utility        ''
           (print ''--------------------------------------------------'' (emit EnterMain st))))"
  have t4: "trace s4 = trace st @ [EnterMain]"
    by (simp add: s4_def trace_print emit_def)
  obtain r s5 where l: "get_local_info env s4 = (r, s5)"
    by (cases "get_local_info env s4")
  from get_local_info_trace [of env s4] l obtain tr1 where
    s5: "s5 = s4\<lparr>trace := trace s4 @ tr1\<rparr>"
    and c1: "\<forall>e \<in> set tr1. is_local e"
    by auto
  have m: "main env st =
      (case r of Inl e \<Rightarrow> (Inl e, s5)
       | Inr (hostname, local_ip) \<Rightarrow>
           public_section env
             (print (CHR 0x0A # ''[PUBLIC NETWORK INFORMATION (Requires external calls)]'')
               (print (''Local IP Address (LAN):  '' @ local_ip)
                 (print (''Desktop Name (Hostname): '' @ hostname) s5))))"
    unfolding main_def Let_def s4_def [symmetric] l prod.case
    by (simp split: sum.splits)
  show ?thesis
  proof (cases r)
    case (Inl e)
    then have "trace (snd (main env st)) = trace st @ (EnterMain # tr1)"
      by (simp add: m s5 t4)
    moreover have "\<forall>e \<in> set (EnterMain # tr1). e = EnterMain \<or> is_local e \<or> is_fetch PUBLIC_IP_SERVICE_URL e"
      using c1 by simp
    ultimately show ?thesis by blast
  next
    case (Inr pair)
    obtain hostname local_ip where pair: "pair = (hostname, local_ip)" by (cases pair)
    define s8 where "s8 =
        print (CHR 0x0A # ''[PUBLIC NETWORK INFORMATION (Requires external calls)]'')
          (print (''Local IP Address (LAN):  '' @ local_ip)
            (print (''Desktop Name (Hostname): '' @ hostname) s5))"
    have t8: "trace s8 = trace st @ (EnterMain # tr1)"
      by (simp add: s8_def trace_print s5 t4)
    have m8: "main env st = public_section env s8"
      unfolding m Inr pair s8_def by simp
    from assms have "fst (get_public_ip env s8) = ''N/A (Connection Failed)''" by simp
    from public_section_skips [OF this] obtain tr2 where
      t: "trace (snd (public_section env s8)) = trace s8 @ tr2"
      and c2: "\<forall>e \<in> set tr2. is_fetch PUBLIC_IP_SERVICE_URL e"
      by blast
    have "trace (snd (main env st)) = trace st @ (EnterMain # tr1 @ tr2)"
      unfolding m8 t t8 by simp
    moreover have "\<forall>e \<in> set (EnterMain # tr1 @ tr2). e = EnterMain \<or> is_local e \<or> is_fetch PUBLIC_IP_SERVICE_URL e"
      using c1 c2 by auto
    ultimately show ?thesis by blast
  qed
qed

lemma get_public_ip_offline:
  "fst (get_public_ip (sample_env offline) s) = ''N/A (Connection Failed)''"
  using fetch_offline [of PUBLIC_IP_SERVICE_URL s]
  by (auto simp: get_public_ip_def split: prod.splits)

lemma public_section_sentinel:
  assumes "fst (get_public_ip env st) = ''N/A (Connection Failed)''"
  shows "public_section env st =
     (Inr (),
      print (CHR 0x0A # ''[Image of network topology]'')
        (print ''--------------------------------------------------''
          (print ''Estimated Location:      N/A (Failed to retrieve Public IP)''
            (print ''Public IP Address (WAN): N/A (Connection Failed)''
              (snd (get_public_ip env st))))))"
proof -
  obtain public_ip s1 where p: "get_public_ip env st = (public_ip, s1)"
    by (cases "get_public_ip env st")
  with assms have ip: "public_ip = ''N/A (Connection Failed)''" by simp
  show ?thesis
    unfolding public_section_def p prod.case Let_def using ip by simp
qed

lemma main_after_probe:
  "main env st =
     (case get_local_info env
        (print (CHR 0x0A # ''[LOCAL NETWORK INFORMATION (No external calls)]'')
          (print ''--------------------------------------------------''
            (print ''        Network and Host Information Utility        ''
              (print ''--------------------------------------------------'' (emit EnterMain st))))) of
        (Inl e, s5) \<Rightarrow> (Inl e, s5)
      | (Inr (hostname, local_ip), s5) \<Rightarrow>
          public_section env
            (print (CHR 0x0A # ''[PUBLIC NETWORK INFORMATION (Requires external calls)]'')
              (print (''Local IP Address (LAN):  '' @ local_ip)
                (print (''Desktop Name (Hostname): '' @ hostname) s5))))"
  unfolding main_def Let_def by (rule refl)

lemma main_sentinel_report:
  assumes a: "\<forall>s. fst (get_public_ip env s) = ''N/A (Connection Failed)''"
    and o: "sys_stdout st = TerminalOutput"
    and r: "fst (main env st) = Inr ()"
  shows "\<exists>hostname local_ip. terminal_output (snd (main env st)) =
      terminal_output st @
      report_text hostname local_ip ''N/A (Connection Failed)'' ''N/A (Failed to retrieve Public IP)''"
proof -
  define s4 where "s4 =
     print (CHR 0x0A # ''[LOCAL NETWORK INFORMATION (No external calls)]'')
       (print ''--------------------------------------------------''
         (print ''        Network and Host Information Utility        ''
           (print ''--------------------------------------------------'' (emit EnterMain st))))"
  obtain r1 s5 where l: "get_local_info env s4 = (r1, s5)"
    by (cases "get_local_info env s4")
  from get_local_info_trace [of env s4] l obtain tr1 where
    s5: "s5 = s4\<lparr>trace := trace s4 @ tr1\<rparr>"
    by auto
  have m: "main env st =
      (case r1 of Inl e \<Rightarrow> (Inl e, s5)
       | Inr (hostname, local_ip) \<Rightarrow>
           public_section env
             (print (CHR 0x0A # ''[PUBLIC NETWORK INFORMATION (Requires external calls)]'')
               (print (''Local IP Address (LAN):  '' @ local_ip)
                 (print (''Desktop Name (Hostname): '' @ hostname) s5))))"
    unfolding main_after_probe s4_def [symmetric] l prod.case
    by (simp split: sum.splits)
  from r m obtain hostname local_ip where r1: "r1 = Inr (hostname, local_ip)"
    by (cases r1) auto
  define s8 where "s8 =
        print (CHR 0x0A # ''[PUBLIC NETWORK INFORMATION (Requires external calls)]'')
          (print (''Local IP Address (LAN):  '' @ local_ip)
            (print (''Desktop Name (Hostname): '' @ hostname) s5))"
  have m8: "main env st = public_section env s8"
    unfolding m r1 s8_def by simp
  from a have a8: "fst (get_public_ip env s8) = ''N/A (Connection Failed)''" by simp
  from get_public_ip_trace [of env s8] obtain tr2 where
    s9: "snd (get_public_ip env s8) = s8\<lparr>trace := trace s8 @ tr2\<rparr>"
    by blast
  have "terminal_output (snd (main env st)) =
      terminal_output st @
      report_text hostname local_ip ''N/A (Connection Failed)'' ''N/A (Failed to retrieve Public IP)''"
    unfolding m8 public_section_sentinel [OF a8] s9
    using o by (simp add: s8_def s5 s4_def print_def emit_def report_text_def)
  then show ?thesis by blast
qed

text \<open>
  C2. When \<open>get_public_ip\<close> returns the sentinel \<open>"N/A (Connection Failed)"\<close>,
  \<open>get_geolocation\<close> called with it returns \<open>"N/A (Requires Public IP)"\<close> and leaves the
  state as it was, so it makes no network call. \<open>main\<close> does not call it: the part of
  \<open>main\<close> that follows the lookup of the public IP ends normally in the state that
  \<open>get_public_ip\<close> left with four lines printed, the second being
  \<open>"Estimated Location:      N/A (Failed to retrieve Public IP)"\<close>, the text of the
  \<open>else\<close> branch and not the string \<open>get_geolocation\<close> returns; no request to the
  geolocation service is among its effects. In a world where the lookup of the public
  IP always gives the sentinel, no run of \<open>main\<close> makes a request to the geolocation
  service, and the report of a run that ends shows that line.
\<close>

theorem no_geolocation_without_public_ip:
  "(fst (get_public_ip env st) = ''N/A (Connection Failed)'' \<longrightarrow>
      get_geolocation env (fst (get_public_ip env st)) st' = (Inr ''N/A (Requires Public IP)'', st') \<and>
      fst (public_section env st) = Inr () \<and>
      (\<forall>t. Get GEOLOCATION_SERVICE_URL t \<notin> set (since st (snd (public_section env st)))) \<and>
      snd (public_section env st) =
        print (CHR 0x0A # ''[Image of network topology]'')
          (print ''--------------------------------------------------''
            (print ''Estimated Location:      N/A (Failed to retrieve Public IP)''
              (print ''Public IP Address (WAN): N/A (Connection Failed)''
                (snd (get_public_ip env st))))) \<and>
      ''Estimated Location:      N/A (Failed to retrieve Public IP)'' \<noteq>
        ''Estimated Location:      '' @ ''N/A (Requires Public IP)'') \<and>
   ((\<forall>s. fst (get_public_ip env s) = ''N/A (Connection Failed)'') \<longrightarrow>
      (\<forall>t. Get GEOLOCATION_SERVICE_URL t \<notin> set (since st (snd (main env st)))) \<and>
      (sys_stdout st = TerminalOutput \<and> fst (main env st) = Inr () \<longrightarrow>
         (\<exists>hostname local_ip. terminal_output (snd (main env st)) =
            terminal_output st @
            report_text hostname local_ip ''N/A (Connection Failed)''
              ''N/A (Failed to retrieve Public IP)'')))"
proof (intro conjI impI allI)
  assume a: "fst (get_public_ip env st) = ''N/A (Connection Failed)''"
  then show "get_geolocation env (fst (get_public_ip env st)) st' = (Inr ''N/A (Requires Public IP)'', st')"
    by (simp add: get_geolocation_def)
  from public_section_skips [OF a] obtain tr where
    t: "trace (snd (public_section env st)) = trace st @ tr"
    and c: "\<forall>e \<in> set tr. is_fetch PUBLIC_IP_SERVICE_URL e"
    and r: "fst (public_section env st) = Inr ()"
    by blast
  show "fst (public_section env st) = Inr ()" by (rule r)
  show "snd (public_section env st) =
        print (CHR 0x0A # ''[Image of network topology]'')
          (print ''--------------------------------------------------''
            (print ''Estimated Location:      N/A (Failed to retrieve Public IP)''
              (print ''Public IP Address (WAN): N/A (Connection Failed)''
                (snd (get_public_ip env st)))))"
    unfolding public_section_sentinel [OF a] by simp
  show "''Estimated Location:      N/A (Failed to retrieve Public IP)'' \<noteq>
        ''Estimated Location:      '' @ ''N/A (Requires Public IP)''"
    by simp
  fix t'
  show "Get GEOLOCATION_SERVICE_URL t' \<notin> set (since st (snd (public_section env st)))"
    using c geo_not_public by (auto simp: since_def t)
next
  fix t'
  assume "\<forall>s. fst (get_public_ip env s) = ''N/A (Connection Failed)''"
  from main_skips [OF this, of st] obtain tr where
    t: "trace (snd (main env st)) = trace st @ tr"
    and c: "\<forall>e \<in> set tr. e = EnterMain \<or> is_local e \<or> is_fetch PUBLIC_IP_SERVICE_URL e"
    by blast
  show "Get GEOLOCATION_SERVICE_URL t' \<notin> set (since st (snd (main env st)))"
  proof
    assume "Get GEOLOCATION_SERVICE_URL t' \<in> set (since st (snd (main env st)))"
    then have "Get GEOLOCATION_SERVICE_URL t' \<in> set tr" by (simp add: since_def t)
    with c have "Get GEOLOCATION_SERVICE_URL t' = EnterMain \<or>
        is_local (Get GEOLOCATION_SERVICE_URL t') \<or>
        is_fetch PUBLIC_IP_SERVICE_URL (Get GEOLOCATION_SERVICE_URL t')"
      by blast
    then show False using geo_not_public geo_not_local by blast
  qed
next
  assume a: "\<forall>s. fst (get_public_ip env s) = ''N/A (Connection Failed)''"
    and b: "sys_stdout st = TerminalOutput \<and> fst (main env st) = Inr ()"
  from main_sentinel_report [OF a] b
  show "\<exists>hostname local_ip. terminal_output (snd (main env st)) =
            terminal_output st @
            report_text hostname local_ip ''N/A (Connection Failed)''
              ''N/A (Failed to retrieve Public IP)''"
    by blast
qed

lemma get_local_info_sample:
  "get_local_info (sample_env net) st =
     (Inr (''desktop'', ''192.168.1.10''),
      st\<lparr>trace := trace st @ [GetHostName, SocketNew, Connect ''8.8.8.8'' 1, GetSockName, SocketClose]\<rparr>)"
  by (simp add: get_local_info_def probe_local_ip_def close_socket_def sample_env_def
      Let_def emit_def)

lemma main_offline:
  assumes "sys_stdout st = TerminalOutput"
  shows "fst (main (sample_env offline) st) = Inr () \<and>
     terminal_output (snd (main (sample_env offline) st)) =
       terminal_output st @
       report_text ''desktop'' ''192.168.1.10'' ''N/A (Connection Failed)''
         ''N/A (Failed to retrieve Public IP)''"
proof -
  define s8 where "s8 =
      print (CHR 0x0A # ''[PUBLIC NETWORK INFORMATION (Requires external calls)]'')
        (print (''Local IP Address (LAN):  '' @ ''192.168.1.10'')
          (print (''Desktop Name (Hostname): '' @ ''desktop'')
            ((print (CHR 0x0A # ''[LOCAL NETWORK INFORMATION (No external calls)]'')
               (print ''--------------------------------------------------''
                 (print ''        Network and Host Information Utility        ''
                   (print ''--------------------------------------------------'' (emit EnterMain st)))))
             \<lparr>trace := trace (print (CHR 0x0A # ''[LOCAL NETWORK INFORMATION (No external calls)]'')
               (print ''--------------------------------------------------''
                 (print ''        Network and Host Information Utility        ''
                   (print ''--------------------------------------------------'' (emit EnterMain st)))))
               @ [GetHostName, SocketNew, Connect ''8.8.8.8'' 1, GetSockName, SocketClose]\<rparr>)))"
  have m: "main (sample_env offline) st = public_section (sample_env offline) s8"
    unfolding main_after_probe get_local_info_sample prod.case sum.case s8_def by (rule refl)
  from get_public_ip_trace [of "sample_env offline" s8] obtain tr where
    s9: "snd (get_public_ip (sample_env offline) s8) = s8\<lparr>trace := trace s8 @ tr\<rparr>"
    by blast
  show ?thesis
    unfolding m public_section_sentinel [OF get_public_ip_offline] s9
    using assms by (simp add: s8_def print_def emit_def report_text_def)
qed

theorem no_geolocation_without_public_ip_witness:
  "(\<forall>s. fst (get_public_ip (sample_env offline) s) = ''N/A (Connection Failed)'') \<and>
   get_geolocation (sample_env offline) ''N/A (Connection Failed)'' initial
     = (Inr ''N/A (Requires Public IP)'', initial) \<and>
   fst (public_section (sample_env offline) (initial\<lparr>sys_stdout := TerminalOutput\<rparr>)) = Inr () \<and>
   (\<forall>t. Get GEOLOCATION_SERVICE_URL t \<notin>
          set (since (initial\<lparr>sys_stdout := TerminalOutput\<rparr>)
                 (snd (public_section (sample_env offline) (initial\<lparr>sys_stdout := TerminalOutput\<rparr>))))) \<and>
   (\<forall>t. Get GEOLOCATION_SERVICE_URL t \<notin>
          set (since (initial\<lparr>sys_stdout := TerminalOutput\<rparr>)
                 (snd (main (sample_env offline) (initial\<lparr>sys_stdout := TerminalOutput\<rparr>))))) \<and>
   fst (main (sample_env offline) (initial\<lparr>sys_stdout := TerminalOutput\<rparr>)) = Inr () \<and>
   terminal_output (snd (main (sample_env offline) (initial\<lparr>sys_stdout := TerminalOutput\<rparr>))) =
     report_text ''desktop'' ''192.168.1.10'' ''N/A (Connection Failed)''
       ''N/A (Failed to retrieve Public IP)''"
proof -
  have h: "\<forall>s. fst (get_public_ip (sample_env offline) s) = ''N/A (Connection Failed)''"
    by (simp add: get_public_ip_offline)
  have o: "sys_stdout (initial\<lparr>sys_stdout := TerminalOutput\<rparr>) = TerminalOutput" by simp
  have e: "terminal_output (initial\<lparr>sys_stdout := TerminalOutput\<rparr>) = []"
    by (simp add: initial_def)
  from main_offline [OF o] e
  have mo: "fst (main (sample_env offline) (initial\<lparr>sys_stdout := TerminalOutput\<rparr>)) = Inr () \<and>
     terminal_output (snd (main (sample_env offline) (initial\<lparr>sys_stdout := TerminalOutput\<rparr>))) =
       report_text ''desktop'' ''192.168.1.10'' ''N/A (Connection Failed)''
         ''N/A (Failed to retrieve Public IP)''"
    by simp
  note T = no_geolocation_without_public_ip
    [of "sample_env offline" "initial\<lparr>sys_stdout := TerminalOutput\<rparr>" initial]
  have a: "fst (get_public_ip (sample_env offline) (initial\<lparr>sys_stdout := TerminalOutput\<rparr>))
      = ''N/A (Connection Failed)''"
    using h by simp
  note T1 = T [THEN conjunct1, THEN mp, OF a]
  note T2 = T [THEN conjunct2, THEN mp, OF h]
  have c1: "get_geolocation (sample_env offline) ''N/A (Connection Failed)'' initial
     = (Inr ''N/A (Requires Public IP)'', initial)"
    using T1 [THEN conjunct1] a by simp
  have c2: "fst (public_section (sample_env offline) (initial\<lparr>sys_stdout := TerminalOutput\<rparr>)) = Inr ()"
    by (rule T1 [THEN conjunct2, THEN conjunct1])
  have c3: "\<forall>t. Get GEOLOCATION_SERVICE_URL t \<notin>
          set (since (initial\<lparr>sys_stdout := TerminalOutput\<rparr>)
                 (snd (public_section (sample_env offline) (initial\<lparr>sys_stdout := TerminalOutput\<rparr>))))"
    by (rule T1 [THEN conjunct2, THEN conjunct2, THEN conjunct1])
  have c4: "\<forall>t. Get GEOLOCATION_SERVICE_URL t \<notin>
          set (since (initial\<lparr>sys_stdout := TerminalOutput\<rparr>)
                 (snd (main (sample_env offline) (initial\<lparr>sys_stdout := TerminalOutput\<rparr>))))"
    by (rule T2 [THEN conjunct1])
  from h c1 c2 c3 c4 mo show ?thesis by simp
qed

section \<open>A response that is not an object\<close>

text \<open>The program on a host whose services answer, the geolocation service with \<open>[]\<close>.\<close>

lemma get_public_ip_sample:
  "get_public_ip (sample_env (online ''203.0.113.5'' body)) st =
     (''203.0.113.5'', emit (Get PUBLIC_IP_SERVICE_URL 5) st)"
proof -
  have "urlopen (sample_env (online ''203.0.113.5'' body)) PUBLIC_IP_SERVICE_URL (now st)
      = Inr ''203.0.113.5''"
    by (simp add: sample_env_def online_def)
  from fetch_first_body [OF this] show ?thesis
    by (simp add: get_public_ip_def strip_def isspace_def)
qed

lemma parse_location_list:
  "parse_location (sample_env net) ''[]'' = Inl AttributeError"
  by (simp add: parse_location_def sample_env_def sample_loads_def paris_body_def no_region_body_def)

lemma get_geolocation_list:
  "get_geolocation (sample_env (online ip ''[]'')) ''203.0.113.5'' st =
     (Inl AttributeError, emit (Get GEOLOCATION_SERVICE_URL 5) st)"
  by (simp add: get_geolocation_def fetch_geo_sample parse_location_list)

lemma public_section_list:
  "fst (public_section (sample_env (online ''203.0.113.5'' ''[]'')) st) = Inl AttributeError \<and>
   trace (snd (public_section (sample_env (online ''203.0.113.5'' ''[]'')) st)) =
     trace st @ [Get PUBLIC_IP_SERVICE_URL 5, Get GEOLOCATION_SERVICE_URL 5]"
  unfolding public_section_def get_public_ip_sample prod.case Let_def get_geolocation_list
  by (simp add: emit_def trace_print)

lemma main_list:
  "fst (main (sample_env (online ''203.0.113.5'' ''[]'')) st) = Inl AttributeError \<and>
   trace (snd (main (sample_env (online ''203.0.113.5'' ''[]'')) st)) =
     trace st @ [EnterMain, GetHostName, SocketNew, Connect ''8.8.8.8'' 1, GetSockName, SocketClose,
                 Get PUBLIC_IP_SERVICE_URL 5, Get GEOLOCATION_SERVICE_URL 5]"
  unfolding main_def Let_def get_local_info_sample prod.case sum.case
  by (simp add: public_section_list trace_print emit_def)

text \<open>
  C4 does not hold of the code. When the geolocation service answers \<open>[]\<close>, which is
  valid JSON and not an object, \<open>data.get\<close> raises \<open>AttributeError\<close>; the handler of
  \<open>get_geolocation\<close> catches \<open>json.JSONDecodeError\<close> only, \<open>main\<close> has no handler, and the
  program ends in its first call of \<open>main\<close> with exit status 1, before the webhook is
  called.
\<close>

theorem list_response_crashes:
  "fst (run_module True (sample_env (online ''203.0.113.5'' ''[]''))) = Inl AttributeError \<and>
   exit_status (run_module True (sample_env (online ''203.0.113.5'' ''[]''))) = 1 \<and>
   trace (snd (run_module True (sample_env (online ''203.0.113.5'' ''[]'')))) =
     [EnterMain, GetHostName, SocketNew, Connect ''8.8.8.8'' 1, GetSockName, SocketClose,
      Get PUBLIC_IP_SERVICE_URL 5, Get GEOLOCATION_SERVICE_URL 5]"
proof -
  define s0 where "s0 = initial\<lparr>sys_stdout := TerminalOutput\<rparr>"
  obtain r s1 where m: "main (sample_env (online ''203.0.113.5'' ''[]'')) s0 = (r, s1)"
    by (cases "main (sample_env (online ''203.0.113.5'' ''[]'')) s0")
  from main_list [of s0] m have r: "r = Inl AttributeError"
    and t: "trace s1 = [EnterMain, GetHostName, SocketNew, Connect ''8.8.8.8'' 1, GetSockName,
      SocketClose, Get PUBLIC_IP_SERVICE_URL 5, Get GEOLOCATION_SERVICE_URL 5]"
    by (simp_all add: s0_def initial_def)
  have "run_module True (sample_env (online ''203.0.113.5'' ''[]'')) = (Inl AttributeError, s1)"
    unfolding run_module_def Let_def s0_def [symmetric] using m r by simp
  then show ?thesis by (simp add: t)
qed

section \<open>A world that answers the same at all times\<close>

text \<open>
  In such a world a run does not depend on what came before it: effects and captured
  output put before the state come out unchanged before the result.
\<close>

lemma emit_earlier: "emit e (earlier tr out s) = earlier tr out (emit e s)"
  by (simp add: emit_def earlier_def)

lemma print_earlier: "print x (earlier tr out s) = earlier tr out (print x s)"
  by (simp add: print_def earlier_def split: stream.splits)

lemma now_earlier: "now (earlier tr out s) = length tr + now s"
  by (simp add: now_def earlier_def)

lemma open_sockets_earlier:
  "open_sockets (earlier tr out s) = open_sockets s"
  "(earlier tr out s)\<lparr>open_sockets := n\<rparr> = earlier tr out (s\<lparr>open_sockets := n\<rparr>)"
  by (simp_all add: earlier_def)

lemma timeless_shift:
  assumes "timeless env"
  shows "urlopen env u (length tr + t) = urlopen env u t"
    and "gethostname env (length tr + t) = gethostname env t"
    and "socket_new env (length tr + t) = socket_new env t"
    and "connect env (length tr + t) = connect env t"
    and "getsockname env (length tr + t) = getsockname env t"
    and "gethostbyname env h (length tr + t) = gethostbyname env h t"
    and "socket_close env (length tr + t) = socket_close env t"
    and "requests_post env u p (length tr + t) = requests_post env u p t"
  using assms unfolding timeless_def by blast+

lemma fetch_loop_earlier:
  assumes "timeless env"
  shows "fetch_loop env url as (earlier tr out s) =
     (fst (fetch_loop env url as s), earlier tr out (snd (fetch_loop env url as s)))"
proof (induction as arbitrary: s)
  case Nil
  show ?case by simp
next
  case (Cons a as)
  show ?case
    by (simp add: now_earlier timeless_shift [OF assms] emit_earlier Cons.IH Let_def
        split: sum.splits)
qed

lemma get_public_ip_earlier:
  assumes "timeless env"
  shows "get_public_ip env (earlier tr out s) =
     (fst (get_public_ip env s), earlier tr out (snd (get_public_ip env s)))"
  by (simp add: get_public_ip_def fetch_data_with_retry_def fetch_loop_earlier [OF assms]
      split_beta split: option.splits)

lemma get_geolocation_earlier:
  assumes "timeless env"
  shows "get_geolocation env ip (earlier tr out s) =
     (fst (get_geolocation env ip s), earlier tr out (snd (get_geolocation env ip s)))"
  by (simp add: get_geolocation_def fetch_data_with_retry_def fetch_loop_earlier [OF assms]
      split_beta split: option.splits)

lemma public_section_earlier:
  assumes "timeless env"
  shows "public_section env (earlier tr out s) =
     (fst (public_section env s), earlier tr out (snd (public_section env s)))"
  by (simp add: public_section_def get_public_ip_earlier [OF assms]
      get_geolocation_earlier [OF assms] print_earlier split_beta Let_def split: sum.splits)

lemma probe_local_ip_earlier:
  assumes "timeless env"
  shows "probe_local_ip env h (earlier tr out s) =
     (fst (probe_local_ip env h s), earlier tr out (snd (probe_local_ip env h s)))"
  by (simp add: probe_local_ip_def now_earlier timeless_shift [OF assms] emit_earlier Let_def
      split: sum.splits)

lemma close_socket_earlier:
  assumes "timeless env"
  shows "close_socket env (earlier tr out s) =
     (fst (close_socket env s), earlier tr out (snd (close_socket env s)))"
  by (simp add: close_socket_def now_earlier timeless_shift [OF assms] emit_earlier
      open_sockets_earlier)

lemma on_socket_error_earlier:
  "on_socket_error e h (earlier tr out s) =
     (fst (on_socket_error e h s), earlier tr out (snd (on_socket_error e h s)))"
  by (simp add: on_socket_error_def emit_earlier)

lemma get_local_info_earlier:
  assumes "timeless env"
  shows "get_local_info env (earlier tr out s) =
     (fst (get_local_info env s), earlier tr out (snd (get_local_info env s)))"
  by (simp add: get_local_info_def now_earlier timeless_shift [OF assms] emit_earlier
      open_sockets_earlier probe_local_ip_earlier [OF assms] close_socket_earlier [OF assms]
      on_socket_error_earlier split_beta Let_def split: sum.splits)

lemma main_earlier:
  assumes "timeless env"
  shows "main env (earlier tr out s) =
     (fst (main env s), earlier tr out (snd (main env s)))"
  by (simp add: main_def emit_earlier print_earlier get_local_info_earlier [OF assms]
      public_section_earlier [OF assms] split_beta Let_def split: sum.splits)

lemma timeless_sample: "timeless (sample_env (online ip_body geo_body))"
  by (simp add: timeless_def sample_env_def online_def)

section \<open>The module as a whole\<close>

lemma main_calls_append: "main_calls (xs @ ys) = main_calls xs + main_calls ys"
  by (simp add: main_calls_def)

lemma posted_append: "posted (xs @ ys) = posted xs @ posted ys"
  by (induction xs rule: posted.induct) simp_all

lemma probes_are_quiet:
  "\<forall>e \<in> set tr. is_probe e \<Longrightarrow> main_calls tr = 0 \<and> posted tr = []"
proof (induction tr)
  case Nil
  show ?case by (simp add: main_calls_def)
next
  case (Cons e tr)
  then have "is_probe e" and ih: "main_calls tr = 0 \<and> posted tr = []" by simp_all
  then have "e \<noteq> EnterMain \<and> posted (e # tr) = posted tr"
    by (cases e) (auto simp: is_probe_def)
  with ih show ?case by (simp add: main_calls_def)
qed

lemma send_to_webhook_state:
  "send_to_webhook env text st =
     (Inr (), st\<lparr>trace := trace st @
        [Post ''Your_webhook_here''
           [(''content'', ''```json'' @ [CHR 0x0A] @ text @ [CHR 0x0A] @ ''```'')] 3]\<rparr>)"
  by (simp add: send_to_webhook_def Let_def emit_def split: sum.splits)

text \<open>The program on a host whose services answer, the geolocation service for Paris.\<close>

lemma get_geolocation_paris:
  "get_geolocation (sample_env (online ip paris_body)) ''203.0.113.5'' st =
     (Inr ''Paris, Ile-de-France, FR'', emit (Get GEOLOCATION_SERVICE_URL 5) st)"
proof -
  have "paris_body \<noteq> []" by (simp add: paris_body_def)
  then show ?thesis
    by (simp add: get_geolocation_def fetch_geo_sample parse_location_def sample_loads_paris)
qed

lemma main_paris:
  assumes "sys_stdout st = TerminalOutput"
  shows "main (sample_env (online ''203.0.113.5'' paris_body)) st =
     (Inr (), extend st
        [EnterMain, GetHostName, SocketNew, Connect ''8.8.8.8'' 1, GetSockName, SocketClose,
         Get PUBLIC_IP_SERVICE_URL 5, Get GEOLOCATION_SERVICE_URL 5]
        (report_text ''desktop'' ''192.168.1.10'' ''203.0.113.5'' ''Paris, Ile-de-France, FR''))"
  unfolding main_def public_section_def Let_def get_local_info_sample get_public_ip_sample
    get_geolocation_paris prod.case sum.case
  using assms
  by (simp add: print_def emit_def extend_def report_text_def)

text \<open>The module when it is imported: the guarded block is skipped.\<close>

lemma run_module_import:
  "run_module False env =
     (case main env (initial\<lparr>sys_stdout := TerminalOutput\<rparr>) of
        (Inl e, s2) \<Rightarrow> (Inl e, s2)
      | (Inr u, s2) \<Rightarrow>
          send_to_webhook env (terminal_output s2) (s2\<lparr>sys_stdout := Console\<rparr>))"
  by (simp add: run_module_def Let_def split: prod.splits sum.splits)

text \<open>
  Importing the file calls \<open>main\<close> exactly once, with the standard output redirected
  into the buffer, so that nothing reaches the console; the import ends as this call of
  \<open>main\<close> ends, and when it ends normally the one POST request carries the captured
  report in its fence.
\<close>

theorem import_runs_pipeline:
  "main_calls (trace (snd (run_module False env))) = 1 \<and>
   console (snd (run_module False env)) = [] \<and>
   fst (run_module False env) = fst (main env (initial\<lparr>sys_stdout := TerminalOutput\<rparr>)) \<and>
   (fst (run_module False env) = Inr () \<longrightarrow>
      (\<exists>hostname local_ip public_ip location.
         posted (trace (snd (run_module False env))) =
           [[(''content'', ''```json'' @ [CHR 0x0A] @
               report_text hostname local_ip public_ip location @ [CHR 0x0A] @ ''```'')]]))"
proof -
  define s0 where "s0 = initial\<lparr>sys_stdout := TerminalOutput\<rparr>"
  have o: "sys_stdout s0 = TerminalOutput" by (simp add: s0_def)
  obtain r s2 where m: "main env s0 = (r, s2)" by (cases "main env s0")
  from main_extend [OF o, of env] obtain tr out where
    e: "snd (main env s0) = extend s0 (EnterMain # tr) out"
    and q: "\<forall>e \<in> set tr. is_probe e"
    and rep0: "fst (main env s0) = Inr () \<longrightarrow> (\<exists>hostname local_ip public_ip location.
           out = report_text hostname local_ip public_ip location)"
    by blast
  have s2: "s2 = extend s0 (EnterMain # tr) out" using e m by simp
  have rep: "r = Inr () \<longrightarrow> (\<exists>hostname local_ip public_ip location.
           out = report_text hostname local_ip public_ip location)"
    using rep0 m by simp
  from probes_are_quiet [OF q] have q1: "main_calls tr = 0" and q2: "posted tr = []" by simp_all
  have t2: "trace s2 = EnterMain # tr" and c2: "console s2 = []" and out: "terminal_output s2 = out"
    by (simp_all add: s2 extend_def s0_def initial_def)
  have mc: "main_calls (EnterMain # tr) = 1"
    using q1 by (simp add: main_calls_def)
  show ?thesis
  proof (cases r)
    case (Inl e)
    then have "run_module False env = (Inl e, s2)"
      by (simp add: run_module_import s0_def [symmetric] m)
    then show ?thesis
      using Inl m mc c2 by (simp add: t2 s0_def)
  next
    case (Inr u)
    then have "run_module False env =
        (Inr (), s2\<lparr>sys_stdout := Console, trace := trace s2 @
           [Post ''Your_webhook_here''
              [(''content'', ''```json'' @ [CHR 0x0A] @ out @ [CHR 0x0A] @ ''```'')] 3]\<rparr>)"
      by (simp add: run_module_import s0_def [symmetric] m send_to_webhook_state out)
    moreover have "main_calls ((EnterMain # tr) @
           [Post ''Your_webhook_here''
              [(''content'', ''```json'' @ [CHR 0x0A] @ out @ [CHR 0x0A] @ ''```'')] 3]) = 1"
      unfolding main_calls_append mc by (simp add: main_calls_def)
    moreover have "posted ((EnterMain # tr) @
           [Post ''Your_webhook_here''
              [(''content'', ''```json'' @ [CHR 0x0A] @ out @ [CHR 0x0A] @ ''```'')] 3]) =
        [[(''content'', ''```json'' @ [CHR 0x0A] @ out @ [CHR 0x0A] @ ''```'')]]"
      unfolding posted_append using q2 by simp
    ultimately show ?thesis
      using Inr m rep c2 by (auto simp: t2 s0_def [symmetric])
  qed
qed

theorem import_runs_pipeline_witness:
  "fst (run_module False (sample_env (online ''203.0.113.5'' paris_body))) = Inr () \<and>
   main_calls (trace (snd (run_module False (sample_env (online ''203.0.113.5'' paris_body))))) = 1 \<and>
   console (snd (run_module False (sample_env (online ''203.0.113.5'' paris_body)))) = [] \<and>
   posted (trace (snd (run_module False (sample_env (online ''203.0.113.5'' paris_body))))) =
     [[(''content'', ''```json'' @ [CHR 0x0A] @
         report_text ''desktop'' ''192.168.1.10'' ''203.0.113.5'' ''Paris, Ile-de-France, FR'' @
         [CHR 0x0A] @ ''```'')]]"
proof -
  have o: "sys_stdout (initial\<lparr>sys_stdout := TerminalOutput\<rparr>) = TerminalOutput" by simp
  have r: "run_module False (sample_env (online ''203.0.113.5'' paris_body)) =
      send_to_webhook (sample_env (online ''203.0.113.5'' paris_body))
        (report_text ''desktop'' ''192.168.1.10'' ''203.0.113.5'' ''Paris, Ile-de-France, FR'')
        ((extend (initial\<lparr>sys_stdout := TerminalOutput\<rparr>)
           [EnterMain, GetHostName, SocketNew, Connect ''8.8.8.8'' 1, GetSockName, SocketClose,
            Get PUBLIC_IP_SERVICE_URL 5, Get GEOLOCATION_SERVICE_URL 5]
           (report_text ''desktop'' ''192.168.1.10'' ''203.0.113.5'' ''Paris, Ile-de-France, FR''))
         \<lparr>sys_stdout := Console\<rparr>)"
    unfolding run_module_import main_paris [OF o] prod.case sum.case
    by (simp add: extend_def initial_def)
  have f: "fst (run_module False (sample_env (online ''203.0.113.5'' paris_body))) = Inr ()"
    unfolding r send_to_webhook_state by simp
  have p: "posted (trace (snd (run_module False (sample_env (online ''203.0.113.5'' paris_body))))) =
     [[(''content'', ''```json'' @ [CHR 0x0A] @
         report_text ''desktop'' ''192.168.1.10'' ''203.0.113.5'' ''Paris, Ile-de-France, FR'' @
         [CHR 0x0A] @ ''```'')]]"
    unfolding r send_to_webhook_state
    by (simp add: extend_def initial_def)
  from import_runs_pipeline [of "sample_env (online ''203.0.113.5'' paris_body)"] f p
  show ?thesis by simp
qed

text \<open>The module when it is run as the main program.\<close>

lemma run_module_main:
  "run_module True env =
     (case main env (initial\<lparr>sys_stdout := TerminalOutput\<rparr>) of
        (Inl e, s1) \<Rightarrow> (Inl e, s1)
      | (Inr u, s1) \<Rightarrow>
          (case main env s1 of
             (Inl e, s2) \<Rightarrow> (Inl e, s2)
           | (Inr u', s2) \<Rightarrow>
               send_to_webhook env (terminal_output s2) (s2\<lparr>sys_stdout := Console\<rparr>)))"
  by (simp add: run_module_def Let_def split: prod.splits sum.splits)

text \<open>
  Run as the main program, the file calls \<open>main\<close> a second time when the first call
  returns, and the text delivered to the webhook when both return is the report of the
  first call followed by the report of the second; in a world that answers the same at
  all times these are two copies of one report.
\<close>

theorem main_runs_twice:
  "(fst (main env (initial\<lparr>sys_stdout := TerminalOutput\<rparr>)) = Inr () \<longrightarrow>
      main_calls (trace (snd (run_module True env))) = 2) \<and>
   (fst (run_module True env) = Inr () \<longrightarrow>
      (\<exists>h1 l1 p1 g1 h2 l2 p2 g2.
         posted (trace (snd (run_module True env))) =
           [[(''content'', ''```json'' @ [CHR 0x0A] @
               (report_text h1 l1 p1 g1 @ report_text h2 l2 p2 g2) @ [CHR 0x0A] @ ''```'')]])) \<and>
   (timeless env \<and> fst (main env (initial\<lparr>sys_stdout := TerminalOutput\<rparr>)) = Inr () \<longrightarrow>
      fst (run_module True env) = Inr () \<and>
      (\<exists>h l p g.
         posted (trace (snd (run_module True env))) =
           [[(''content'', ''```json'' @ [CHR 0x0A] @
               (report_text h l p g @ report_text h l p g) @ [CHR 0x0A] @ ''```'')]]))"
proof -
  define s0 where "s0 = initial\<lparr>sys_stdout := TerminalOutput\<rparr>"
  have o0: "sys_stdout s0 = TerminalOutput" by (simp add: s0_def)
  obtain r1 s1 where m1: "main env s0 = (r1, s1)" by (cases "main env s0")
  from main_extend [OF o0, of env] obtain tr1 out1 where
    e1: "snd (main env s0) = extend s0 (EnterMain # tr1) out1"
    and q1: "\<forall>e \<in> set tr1. is_probe e"
    and rep1: "fst (main env s0) = Inr () \<longrightarrow> (\<exists>h l p g. out1 = report_text h l p g)"
    by blast
  have s1: "s1 = extend s0 (EnterMain # tr1) out1" using e1 m1 by simp
  have o1: "sys_stdout s1 = TerminalOutput" by (simp add: s1 extend_def s0_def)
  obtain r2 s2 where m2: "main env s1 = (r2, s2)" by (cases "main env s1")
  from main_extend [OF o1, of env] obtain tr2 out2 where
    e2: "snd (main env s1) = extend s1 (EnterMain # tr2) out2"
    and q2: "\<forall>e \<in> set tr2. is_probe e"
    and rep2: "fst (main env s1) = Inr () \<longrightarrow> (\<exists>h l p g. out2 = report_text h l p g)"
    by blast
  have s2: "s2 = extend s1 (EnterMain # tr2) out2" using e2 m2 by simp
  have t2: "trace s2 = (EnterMain # tr1) @ (EnterMain # tr2)"
    and b2: "terminal_output s2 = out1 @ out2"
    by (simp_all add: s2 s1 extend_def s0_def initial_def)
  from probes_are_quiet [OF q1] probes_are_quiet [OF q2]
  have mc: "main_calls ((EnterMain # tr1) @ (EnterMain # tr2)) = 2"
    and po: "posted ((EnterMain # tr1) @ (EnterMain # tr2)) = []"
    by (simp_all add: main_calls_def posted_append)
  define post where "post = Post ''Your_webhook_here''
      [(''content'', ''```json'' @ [CHR 0x0A] @ (out1 @ out2) @ [CHR 0x0A] @ ''```'')] 3"
  have run: "run_module True env =
      (case r1 of Inl e \<Rightarrow> (Inl e, s1)
       | Inr u \<Rightarrow>
           (case r2 of Inl e \<Rightarrow> (Inl e, s2)
            | Inr u' \<Rightarrow> (Inr (), s2\<lparr>sys_stdout := Console, trace := trace s2 @ [post]\<rparr>)))"
    unfolding run_module_main s0_def [symmetric] m1 prod.case
    by (simp add: m2 send_to_webhook_state b2 post_def split: sum.splits)
  have twice: "r1 = Inr () \<Longrightarrow> main_calls (trace (snd (run_module True env))) = 2"
    using mc by (cases r2) (simp_all add: run t2 main_calls_append, simp add: main_calls_def post_def)
  have both: "fst (run_module True env) = Inr () \<Longrightarrow> r1 = Inr () \<and> r2 = Inr ()"
    by (cases r1; cases r2) (simp_all add: run)
  have sent: "r1 = Inr () \<Longrightarrow> r2 = Inr () \<Longrightarrow>
      posted (trace (snd (run_module True env))) =
        [[(''content'', ''```json'' @ [CHR 0x0A] @ (out1 @ out2) @ [CHR 0x0A] @ ''```'')]]"
    using po by (simp add: run t2 posted_append post_def)
  have same: "timeless env \<Longrightarrow> r2 = r1 \<and> out2 = out1"
  proof -
    assume tl: "timeless env"
    have "s1 = earlier (EnterMain # tr1) out1 s0"
      by (simp add: s1 extend_def earlier_def s0_def initial_def)
    then have "main env s1 = (r1, earlier (EnterMain # tr1) out1 s1)"
      using main_earlier [OF tl, of "EnterMain # tr1" out1 s0] m1 by simp
    with m2 have "r2 = r1" and "s2 = earlier (EnterMain # tr1) out1 s1" by simp_all
    then have "terminal_output s2 = out1 @ out1"
      by (simp add: earlier_def s1 extend_def s0_def initial_def)
    with b2 show ?thesis using \<open>r2 = r1\<close> by simp
  qed
  show ?thesis
  proof (intro conjI impI)
    assume "fst (main env (initial\<lparr>sys_stdout := TerminalOutput\<rparr>)) = Inr ()"
    then have "r1 = Inr ()" using m1 by (simp add: s0_def)
    then show "main_calls (trace (snd (run_module True env))) = 2" by (rule twice)
  next
    assume "fst (run_module True env) = Inr ()"
    from both [OF this] have r: "r1 = Inr ()" "r2 = Inr ()" by simp_all
    from r rep1 rep2 m1 m2 obtain h1 l1 p1 g1 h2 l2 p2 g2 where
      "out1 = report_text h1 l1 p1 g1" "out2 = report_text h2 l2 p2 g2"
      by auto
    with sent [OF r] show "\<exists>h1 l1 p1 g1 h2 l2 p2 g2.
         posted (trace (snd (run_module True env))) =
           [[(''content'', ''```json'' @ [CHR 0x0A] @
               (report_text h1 l1 p1 g1 @ report_text h2 l2 p2 g2) @ [CHR 0x0A] @ ''```'')]]"
      by blast
  next
    assume a: "timeless env \<and> fst (main env (initial\<lparr>sys_stdout := TerminalOutput\<rparr>)) = Inr ()"
    then have r1: "r1 = Inr ()" using m1 by (simp add: s0_def)
    from a same have r2: "r2 = Inr ()" and oo: "out2 = out1" using r1 by simp_all
    show "fst (run_module True env) = Inr ()" using r1 r2 by (simp add: run)
    from r1 rep1 m1 obtain h l p g where "out1 = report_text h l p g" by auto
    with sent [OF r1 r2] oo show "\<exists>h l p g.
         posted (trace (snd (run_module True env))) =
           [[(''content'', ''```json'' @ [CHR 0x0A] @
               (report_text h l p g @ report_text h l p g) @ [CHR 0x0A] @ ''```'')]]"
      by blast
  qed
qed

theorem main_runs_twice_witness:
  "timeless (sample_env (online ''203.0.113.5'' paris_body)) \<and>
   fst (main (sample_env (online ''203.0.113.5'' paris_body))
          (initial\<lparr>sys_stdout := TerminalOutput\<rparr>)) = Inr () \<and>
   fst (run_module True (sample_env (online ''203.0.113.5'' paris_body))) = Inr () \<and>
   main_calls (trace (snd (run_module True (sample_env (online ''203.0.113.5'' paris_body))))) = 2 \<and>
   posted (trace (snd (run_module True (sample_env (online ''203.0.113.5'' paris_body))))) =
     [[(''content'', ''```json'' @ [CHR 0x0A] @
         (report_text ''desktop'' ''192.168.1.10'' ''203.0.113.5'' ''Paris, Ile-de-France, FR'' @
          report_text ''desktop'' ''192.168.1.10'' ''203.0.113.5'' ''Paris, Ile-de-France, FR'') @
         [CHR 0x0A] @ ''```'')]]"
proof -
  define s0 where "s0 = initial\<lparr>sys_stdout := TerminalOutput\<rparr>"
  define s1 where "s1 = extend s0
      [EnterMain, GetHostName, SocketNew, Connect ''8.8.8.8'' 1, GetSockName, SocketClose,
       Get PUBLIC_IP_SERVICE_URL 5, Get GEOLOCATION_SERVICE_URL 5]
      (report_text ''desktop'' ''192.168.1.10'' ''203.0.113.5'' ''Paris, Ile-de-France, FR'')"
  define s2 where "s2 = extend s1
      [EnterMain, GetHostName, SocketNew, Connect ''8.8.8.8'' 1, GetSockName, SocketClose,
       Get PUBLIC_IP_SERVICE_URL 5, Get GEOLOCATION_SERVICE_URL 5]
      (report_text ''desktop'' ''192.168.1.10'' ''203.0.113.5'' ''Paris, Ile-de-France, FR'')"
  have o0: "sys_stdout s0 = TerminalOutput" by (simp add: s0_def)
  have o1: "sys_stdout s1 = TerminalOutput" by (simp add: s1_def extend_def s0_def)
  have m1: "main (sample_env (online ''203.0.113.5'' paris_body)) s0 = (Inr (), s1)"
    unfolding s1_def by (rule main_paris [OF o0])
  have m2: "main (sample_env (online ''203.0.113.5'' paris_body)) s1 = (Inr (), s2)"
    unfolding s2_def by (rule main_paris [OF o1])
  have b: "terminal_output s2 =
      report_text ''desktop'' ''192.168.1.10'' ''203.0.113.5'' ''Paris, Ile-de-France, FR'' @
      report_text ''desktop'' ''192.168.1.10'' ''203.0.113.5'' ''Paris, Ile-de-France, FR''"
    by (simp add: s2_def s1_def extend_def s0_def initial_def)
  have r: "run_module True (sample_env (online ''203.0.113.5'' paris_body)) =
      send_to_webhook (sample_env (online ''203.0.113.5'' paris_body)) (terminal_output s2)
        (s2\<lparr>sys_stdout := Console\<rparr>)"
    unfolding run_module_main s0_def [symmetric] m1 prod.case sum.case m2 by (rule refl)
  have p: "posted (trace (snd (run_module True (sample_env (online ''203.0.113.5'' paris_body))))) =
      [[(''content'', ''```json'' @ [CHR 0x0A] @ terminal_output s2 @ [CHR 0x0A] @ ''```'')]]"
    unfolding r send_to_webhook_state
    by (simp add: s2_def s1_def extend_def s0_def initial_def)
  have f: "fst (main (sample_env (online ''203.0.113.5'' paris_body))
          (initial\<lparr>sys_stdout := TerminalOutput\<rparr>)) = Inr ()"
    using m1 by (simp add: s0_def)
  from main_runs_twice [of "sample_env (online ''203.0.113.5'' paris_body)"]
    timeless_sample [of "''203.0.113.5''" paris_body] f p
  show ?thesis by (simp add: b)
qed

section \<open>Exceptions that no handler catches\<close>

text \<open>
  The program on a host with no route whose name the resolver refuses with an exception
  that is not a \<open>socket.error\<close>.
\<close>

lemma get_local_info_stranded:
  "get_local_info (stranded OtherException) st =
     (Inl OtherException,
      st\<lparr>trace := trace st @
        [GetHostName, SocketNew, Connect ''8.8.8.8'' 1, GetHostByName ''desktop'', SocketClose]\<rparr>)"
  by (simp add: get_local_info_def probe_local_ip_def close_socket_def on_socket_error_def
      stranded_def sample_env_def Let_def emit_def)

lemma main_stranded:
  "fst (main (stranded OtherException) st) = Inl OtherException \<and>
   trace (snd (main (stranded OtherException) st)) =
     trace st @ [EnterMain, GetHostName, SocketNew, Connect ''8.8.8.8'' 1,
                 GetHostByName ''desktop'', SocketClose]"
  unfolding main_after_probe get_local_info_stranded prod.case sum.case
  by (simp add: trace_print emit_def)

lemma run_module_stranded:
  "fst (run_module True (stranded OtherException)) = Inl OtherException \<and>
   trace (snd (run_module True (stranded OtherException))) =
     [EnterMain, GetHostName, SocketNew, Connect ''8.8.8.8'' 1,
      GetHostByName ''desktop'', SocketClose]"
proof -
  define s0 where "s0 = initial\<lparr>sys_stdout := TerminalOutput\<rparr>"
  obtain r s1 where m: "main (stranded OtherException) s0 = (r, s1)"
    by (cases "main (stranded OtherException) s0")
  from main_stranded [of s0] m have r: "r = Inl OtherException"
    and t: "trace s1 = [EnterMain, GetHostName, SocketNew, Connect ''8.8.8.8'' 1,
                 GetHostByName ''desktop'', SocketClose]"
    by (simp_all add: s0_def initial_def)
  have "run_module True (stranded OtherException) = (Inl OtherException, s1)"
    unfolding run_module_def Let_def s0_def [symmetric] using m r by simp
  then show ?thesis by (simp add: t)
qed

text \<open>
  C5 does not hold of the code. On a host with no route, \<open>connect\<close> fails and the inner
  handler falls back to \<open>gethostbyname\<close>; when that raises an exception that is not a
  \<open>socket.error\<close> (it raises \<open>UnicodeError\<close> for a host name with a label of 64
  characters), the \<open>finally\<close> clause closes the socket and the exception leaves
  \<open>get_local_info\<close>, where a \<open>socket.error\<close> at the same place gives
  \<open>(hostname, "N/A")\<close>. \<open>main\<close> has no handler: the program ends with exit status 1 and
  the webhook is not called.
\<close>

theorem hostname_lookup_error_escapes:
  "fst (get_local_info (stranded OtherException) initial) = Inl OtherException \<and>
   open_sockets (snd (get_local_info (stranded OtherException) initial)) = open_sockets initial \<and>
   fst (get_local_info (stranded SocketError) initial) = Inr (''desktop'', ''N/A'') \<and>
   fst (run_module True (stranded OtherException)) = Inl OtherException \<and>
   exit_status (run_module True (stranded OtherException)) = 1 \<and>
   posted (trace (snd (run_module True (stranded OtherException)))) = []"
proof -
  have a: "fst (get_local_info (stranded SocketError) initial) = Inr (''desktop'', ''N/A'')"
    by (simp add: get_local_info_def probe_local_ip_def close_socket_def on_socket_error_def
        stranded_def sample_env_def Let_def emit_def now_def initial_def)
  obtain r s where rs: "run_module True (stranded OtherException) = (r, s)"
    by (cases "run_module True (stranded OtherException)")
  with run_module_stranded have "r = Inl OtherException" and
    "trace s = [EnterMain, GetHostName, SocketNew, Connect ''8.8.8.8'' 1,
      GetHostByName ''desktop'', SocketClose]"
    by simp_all
  then show ?thesis
    by (simp add: rs a get_local_info_stranded)
qed

text \<open>The module, run or imported, when the geolocation service answers \<open>[]\<close>.\<close>

lemma run_module_list:
  "fst (run_module is_main (sample_env (online ''203.0.113.5'' ''[]''))) = Inl AttributeError \<and>
   trace (snd (run_module is_main (sample_env (online ''203.0.113.5'' ''[]'')))) =
     [EnterMain, GetHostName, SocketNew, Connect ''8.8.8.8'' 1, GetSockName, SocketClose,
      Get PUBLIC_IP_SERVICE_URL 5, Get GEOLOCATION_SERVICE_URL 5]"
proof -
  define s0 where "s0 = initial\<lparr>sys_stdout := TerminalOutput\<rparr>"
  obtain r s1 where m: "main (sample_env (online ''203.0.113.5'' ''[]'')) s0 = (r, s1)"
    by (cases "main (sample_env (online ''203.0.113.5'' ''[]'')) s0")
  from main_list [of s0] m have r: "r = Inl AttributeError"
    and t: "trace s1 = [EnterMain, GetHostName, SocketNew, Connect ''8.8.8.8'' 1, GetSockName,
      SocketClose, Get PUBLIC_IP_SERVICE_URL 5, Get GEOLOCATION_SERVICE_URL 5]"
    by (simp_all add: s0_def initial_def)
  have "run_module is_main (sample_env (online ''203.0.113.5'' ''[]'')) = (Inl AttributeError, s1)"
    unfolding run_module_def Let_def s0_def [symmetric] using m r by simp
  then show ?thesis by (simp add: t)
qed

text \<open>
  C6 does not hold of the code. Run as the main program on a host whose geolocation
  service answers \<open>[]\<close>, the file calls \<open>main\<close> once only: the \<open>AttributeError\<close> leaves
  the call inside the entry-point guard, the unconditional call is never reached and
  nothing is delivered to the webhook.
\<close>

theorem list_response_stops_first_run:
  "fst (run_module True (sample_env (online ''203.0.113.5'' ''[]''))) = Inl AttributeError \<and>
   main_calls (trace (snd (run_module True (sample_env (online ''203.0.113.5'' ''[]''))))) = 1 \<and>
   posted (trace (snd (run_module True (sample_env (online ''203.0.113.5'' ''[]''))))) = []"
proof -
  obtain r s where rs: "run_module True (sample_env (online ''203.0.113.5'' ''[]'')) = (r, s)"
    by (cases "run_module True (sample_env (online ''203.0.113.5'' ''[]''))")
  with run_module_list [of True] have "r = Inl AttributeError" and
    "trace s = [EnterMain, GetHostName, SocketNew, Connect ''8.8.8.8'' 1, GetSockName, SocketClose,
      Get PUBLIC_IP_SERVICE_URL 5, Get GEOLOCATION_SERVICE_URL 5]"
    by simp_all
  then show ?thesis by (simp add: rs main_calls_def)
qed

text \<open>
  C10 does not hold of the code. Imported on a host whose geolocation service answers
  \<open>[]\<close>, the file calls \<open>main\<close> once and the \<open>AttributeError\<close> leaves the import: the
  captured report is not sent to the webhook.
\<close>

theorem list_response_breaks_import:
  "fst (run_module False (sample_env (online ''203.0.113.5'' ''[]''))) = Inl AttributeError \<and>
   main_calls (trace (snd (run_module False (sample_env (online ''203.0.113.5'' ''[]''))))) = 1 \<and>
   posted (trace (snd (run_module False (sample_env (online ''203.0.113.5'' ''[]''))))) = []"
proof -
  obtain r s where rs: "run_module False (sample_env (online ''203.0.113.5'' ''[]'')) = (r, s)"
    by (cases "run_module False (sample_env (online ''203.0.113.5'' ''[]''))")
  with run_module_list [of False] have "r = Inl AttributeError" and
    "trace s = [EnterMain, GetHostName, SocketNew, Connect ''8.8.8.8'' 1, GetSockName, SocketClose,
      Get PUBLIC_IP_SERVICE_URL 5, Get GEOLOCATION_SERVICE_URL 5]"
    by simp_all
  then show ?thesis by (simp add: rs main_calls_def)
qed

end
